theory Spec2Isabelle
  imports Complex_Main "HOL-Library.Word"
begin

section \<open>Bytes, buffers and big integers\<close>

text \<open>
  A C++ \<open>byte\<close> is an 8-bit word. A buffer (\<open>byte *\<close> together with the length the
  callee reads or writes) is the list of the bytes from the pointer on; pointer
  arithmetic \<open>p + n\<close> is \<open>drop n p\<close>, and reading \<open>n\<close> bytes is \<open>take n\<close>.
  An output buffer is passed in with its old contents and returned updated.
  Lengths are \<open>unsigned int\<close> or \<open>size_t\<close> in the source; they are natural numbers
  here, which agrees with the source for every size below \<open>2 ^ 32\<close>.
\<close>

type_synonym byte = "8 word"

definition write_bytes :: "byte list \<Rightarrow> nat \<Rightarrow> byte list \<Rightarrow> byte list" where
  "write_bytes buf off data = take off buf @ data @ drop (off + length data) buf"

text \<open>
  The behaviour of the code depends on two things besides its arguments, which every
  function that needs them takes as the parameter \<open>env\<close>. One is how the file was
  compiled: \<open>assert\<close> is the macro of \<open>assert.h\<close>, which stops the program when its
  condition is false and expands to nothing when \<open>NDEBUG\<close> is defined. The other is
  what a fresh block holds: \<open>SecByteBlock n\<close> allocates \<open>n\<close> bytes and leaves their
  values indeterminate, so they are the stale bytes of the memory it was given. The
  source allocates four blocks, \<open>sbb\<close> in \<open>Hash\<close> and \<open>tt\<close>, \<open>dd\<close> and \<open>ee\<close> in
  \<open>Agree\<close>, each with stale bytes of its own.
\<close>

datatype block = Block_sbb | Block_tt | Block_dd | Block_ee

record environment =
  NDEBUG :: bool
  stale :: "block \<Rightarrow> nat \<Rightarrow> byte"

definition SecByteBlock :: "environment \<Rightarrow> block \<Rightarrow> nat \<Rightarrow> byte list" where
  "SecByteBlock env b n = map (stale env b) [0..<n]"

text \<open>
  Modelled from the spec: the big-integer class \<open>Integer\<close> of the Crypto++ library is
  not part of the source file. An \<open>Integer\<close> is an unbounded \<open>int\<close>; FHMQV decodes and
  encodes values that are not negative. The byte codec is the fixed-width big-endian
  unsigned one: \<open>Encode\<close> writes the low \<open>outputLen\<close> bytes.
\<close>

definition Integer_Decode :: "byte list \<Rightarrow> nat \<Rightarrow> int" where
  "Integer_Decode input inputLen =
     foldl (\<lambda>acc b. acc * 256 + uint b) 0 (take inputLen input)"

definition Integer_Encode :: "int \<Rightarrow> nat \<Rightarrow> byte list" where
  "Integer_Encode x outputLen =
     map (\<lambda>i. word_of_int (x div 256 ^ i)) (rev [0..<outputLen])"

text \<open>
  Modelled from the spec: \<open>BitCount\<close> is the bit length of the magnitude (0 for 0), and
  \<open>ByteCount\<close> the number of bytes that hold it.
\<close>

fun bit_length :: "nat \<Rightarrow> nat" where
  "bit_length n = (if n = 0 then 0 else Suc (bit_length (n div 2)))"

declare bit_length.simps [simp del]

definition BitCount :: "int \<Rightarrow> nat" where
  "BitCount x = bit_length (nat \<bar>x\<bar>)"

definition ByteCount :: "int \<Rightarrow> nat" where
  "ByteCount x = (BitCount x + 7) div 8"

section \<open>Exceptions and control flow\<close>

text \<open>
  Two exceptions can arise inside \<open>Agree\<close>: \<open>DL_BadElement\<close>, thrown by the element
  decoder, and \<open>Integer::DivideByZero\<close>, thrown by \<open>%\<close> on a zero divisor.
  A statement of the \<open>try\<close> block completes normally, returns from the function,
  throws, or stops the program at an \<open>assert\<close> that is compiled in and fails.
\<close>

datatype exception = DL_BadElement | DivideByZero

datatype 'a flow = Normal 'a | Return bool | Throw exception | Abort

datatype 'a outcome = Returned 'a | Raised exception | AssertionFailed

text \<open>
  Modelled from the spec: \<open>a % d\<close> on \<open>Integer\<close>, which is not part of the source file.
  For the positive subgroup orders of the specification it is \<open>a mod d\<close>. The library
  takes the remainder by the magnitude of the divisor, so that it is never negative, and
  throws \<open>Integer::DivideByZero\<close> on a zero divisor.
\<close>

definition Integer_mod :: "int \<Rightarrow> int \<Rightarrow> exception + int" where
  "Integer_mod a d = (if d = 0 then Inl DivideByZero else Inr (a mod \<bar>d\<bar>))"

section \<open>The template parameters: group, hash, random numbers\<close>

text \<open>
  \<open>GROUP_PARAMETERS\<close>, \<open>HASH\<close> and \<open>RandomNumberGenerator\<close> belong to the library,
  not to the source file: they are parameters of the model. A group-parameter object
  is the record of the member functions \<open>FHMQV_Domain\<close> calls; \<open>DecodeElement\<close>
  returns \<open>None\<close> where the C++ throws \<open>DL_BadElement\<close>.
\<close>

record 'e DL_GroupParameters =
  GetGroupOrder :: int
  GetSubgroupOrder :: int
  GetMaxExponent :: int
  GetEncodedElementSize :: "bool \<Rightarrow> nat"
  ExponentiateBase :: "int \<Rightarrow> 'e"
  ExponentiateElement :: "'e \<Rightarrow> int \<Rightarrow> 'e"
  MultiplyElements :: "'e \<Rightarrow> 'e \<Rightarrow> 'e"
  EncodeElement :: "bool \<Rightarrow> 'e \<Rightarrow> byte list"
  DecodeElement :: "byte list \<Rightarrow> bool \<Rightarrow> 'e option"
  ValidateElement :: "nat \<Rightarrow> 'e \<Rightarrow> bool"

text \<open>
  Modelled from the spec: the hash primitive, with its native digest size, incremental
  \<open>Update\<close> and \<open>TruncatedFinal\<close>. A hash object accumulates the bytes given to
  \<open>Update\<close>; \<open>TruncatedFinal\<close> writes the leading bytes of the digest of what was
  accumulated.
\<close>

record HASH =
  DIGESTSIZE :: nat
  digest_of :: "byte list \<Rightarrow> byte list"

definition Update :: "byte list \<Rightarrow> byte list \<Rightarrow> nat \<Rightarrow> byte list" where
  "Update hash input len = hash @ take len input"

definition TruncatedFinal :: "HASH \<Rightarrow> byte list \<Rightarrow> nat \<Rightarrow> byte list" where
  "TruncatedFinal H hash sz = take sz (digest_of H hash)"

text \<open>
  Modelled from the spec: the randomness source. A random number generator is a state
  and the function that draws an \<open>Integer\<close> of a range from a state, as the constructor
  \<open>Integer x(rng, min, max)\<close> does.
\<close>

record 'r RandomNumberGenerator =
  rng_state :: 'r
  rng_Integer :: "'r \<Rightarrow> int \<Rightarrow> int \<Rightarrow> int \<times> 'r"

definition Integer_random ::
  "'r RandomNumberGenerator \<Rightarrow> int \<Rightarrow> int \<Rightarrow> int \<times> 'r RandomNumberGenerator" where
  "Integer_random rng lo hi =
     (case rng_Integer rng (rng_state rng) lo hi of
        (x, s) \<Rightarrow> (x, rng\<lparr>rng_state := s\<rparr>))"

section \<open>FHMQV_Domain\<close>

datatype KeyAgreementRole = RoleServer | RoleClient

record 'e FHMQV_Domain =
  m_role :: KeyAgreementRole
  m_groupParameters :: "'e DL_GroupParameters"

text \<open>The constructor of line 22: \<open>FHMQV_Domain(params, clientRole)\<close>.\<close>

definition new_FHMQV_Domain :: "'e DL_GroupParameters \<Rightarrow> bool \<Rightarrow> 'e FHMQV_Domain" where
  "new_FHMQV_Domain params clientRole =
     \<lparr>m_role = (if clientRole then RoleClient else RoleServer), m_groupParameters = params\<rparr>"

definition GetAbstractGroupParameters :: "'e FHMQV_Domain \<Rightarrow> 'e DL_GroupParameters" where
  "GetAbstractGroupParameters D = m_groupParameters D"

subsection \<open>Lengths (lines 95 to 120)\<close>

definition AgreedValueLength :: "HASH \<Rightarrow> 'e FHMQV_Domain \<Rightarrow> nat" where
  "AgreedValueLength H D = DIGESTSIZE H"

definition StaticPrivateKeyLength :: "'e FHMQV_Domain \<Rightarrow> nat" where
  "StaticPrivateKeyLength D = ByteCount (GetSubgroupOrder (GetAbstractGroupParameters D))"

definition StaticPublicKeyLength :: "'e FHMQV_Domain \<Rightarrow> nat" where
  "StaticPublicKeyLength D = GetEncodedElementSize (GetAbstractGroupParameters D) True"

definition EphemeralPrivateKeyLength :: "'e FHMQV_Domain \<Rightarrow> nat" where
  "EphemeralPrivateKeyLength D = StaticPrivateKeyLength D + StaticPublicKeyLength D"

definition EphemeralPublicKeyLength :: "'e FHMQV_Domain \<Rightarrow> nat" where
  "EphemeralPublicKeyLength D = StaticPublicKeyLength D"

subsection \<open>Hash (lines 61 to 85)\<close>

text \<open>
  \<open>sigma\<close> is \<open>None\<close> for the null pointer. The result is \<open>None\<close> when the assertion of
  line 66 is compiled in and fails, and otherwise the digest buffer after
  \<open>TruncatedFinal\<close> wrote to it. Without the assertion a \<open>dlen\<close> above the digest size
  reaches line 83: only \<open>DIGESTSIZE\<close> bytes are written, and the bytes of the buffer
  after them stay as they were.
\<close>

definition Hash ::
  "HASH \<Rightarrow> 'e FHMQV_Domain \<Rightarrow> environment \<Rightarrow> 'e option \<Rightarrow>
   byte list \<Rightarrow> nat \<Rightarrow> byte list \<Rightarrow> nat \<Rightarrow> byte list \<Rightarrow> nat \<Rightarrow> byte list \<Rightarrow> nat \<Rightarrow>
   byte list \<Rightarrow> nat \<Rightarrow> byte list option" where
  "Hash H D env sigma e1 e1len e2 e2len s1 s1len s2 s2len digest dlen =
     (if \<not> NDEBUG env \<and> \<not> dlen \<le> DIGESTSIZE H then None
      else
        let hash0 = [];
            hash1 =
              (case sigma of
                 None \<Rightarrow> hash0
               | Some s \<Rightarrow>
                   let params = GetAbstractGroupParameters D;
                       sbb = write_bytes (SecByteBlock env Block_sbb (GetEncodedElementSize params True)) 0
                               (EncodeElement params True s)
                   in Update hash0 sbb (GetEncodedElementSize params True));
            hash2 = Update hash1 e1 e1len;
            hash3 = Update hash2 e2 e2len;
            hash4 = Update hash3 s1 s1len;
            hash5 = Update hash4 s2 s2len;
            sz = min dlen (DIGESTSIZE H)
        in Some (write_bytes digest 0 (TruncatedFinal H hash5 sz)))"

subsection \<open>Key generation (lines 103 to 136)\<close>

text \<open>
  Each function returns the generator and the output buffer as they are after the call.
\<close>

definition GenerateStaticPrivateKey ::
  "'e FHMQV_Domain \<Rightarrow> 'r RandomNumberGenerator \<Rightarrow> byte list \<Rightarrow>
   'r RandomNumberGenerator \<times> byte list" where
  "GenerateStaticPrivateKey D rng privateKey =
     (case Integer_random rng 1 (GetMaxExponent (GetAbstractGroupParameters D)) of
        (x, rng') \<Rightarrow>
          (rng', write_bytes privateKey 0 (Integer_Encode x (StaticPrivateKeyLength D))))"

definition GenerateStaticPublicKey ::
  "'e FHMQV_Domain \<Rightarrow> 'r RandomNumberGenerator \<Rightarrow> byte list \<Rightarrow> byte list \<Rightarrow>
   'r RandomNumberGenerator \<times> byte list" where
  "GenerateStaticPublicKey D rng privateKey publicKey =
     (let params = GetAbstractGroupParameters D;
          x = Integer_Decode privateKey (StaticPrivateKeyLength D);
          y = ExponentiateBase params x
      in (rng, write_bytes publicKey 0 (EncodeElement params True y)))"

definition GenerateEphemeralPrivateKey ::
  "'e FHMQV_Domain \<Rightarrow> 'r RandomNumberGenerator \<Rightarrow> byte list \<Rightarrow>
   'r RandomNumberGenerator \<times> byte list" where
  "GenerateEphemeralPrivateKey D rng privateKey =
     (let params = GetAbstractGroupParameters D
      in case Integer_random rng 1 (GetMaxExponent params) of
        (x, rng') \<Rightarrow>
          let privateKey1 = write_bytes privateKey 0 (Integer_Encode x (StaticPrivateKeyLength D));
              y = ExponentiateBase params x
          in (rng', write_bytes privateKey1 (StaticPrivateKeyLength D)
                      (EncodeElement params True y)))"

definition GenerateEphemeralPublicKey ::
  "'e FHMQV_Domain \<Rightarrow> 'r RandomNumberGenerator \<Rightarrow> byte list \<Rightarrow> byte list \<Rightarrow>
   'r RandomNumberGenerator \<times> byte list" where
  "GenerateEphemeralPublicKey D rng privateKey publicKey =
     (rng, write_bytes publicKey 0
             (take (EphemeralPublicKeyLength D) (drop (StaticPrivateKeyLength D) privateKey)))"

subsection \<open>Agree (lines 147 to 262)\<close>

text \<open>
  The operands of lines 152 to 197: four pointers and their lengths. \<open>tt\<close> holds the
  caller's own static public key, computed from its static private key. The role has
  two values, as the constructors set it, so the branch of lines 193 to 197 is never
  taken.
\<close>

record operands =
  XX :: "byte list"
  xxs :: nat
  YY :: "byte list"
  yys :: nat
  AA :: "byte list"
  aas :: nat
  BB :: "byte list"
  bbs :: nat

definition Agree_operands ::
  "'e FHMQV_Domain \<Rightarrow> environment \<Rightarrow> byte list \<Rightarrow> byte list \<Rightarrow> byte list \<Rightarrow> byte list \<Rightarrow>
   operands" where
  "Agree_operands D env staticPrivateKey ephemeralPrivateKey staticOtherPublicKey
       ephemeralOtherPublicKey =
     (let params = GetAbstractGroupParameters D;
          tt0 = SecByteBlock env Block_tt (StaticPublicKeyLength D)
      in case m_role D of
        RoleServer \<Rightarrow>
          let b = Integer_Decode staticPrivateKey (StaticPrivateKeyLength D);
              B = ExponentiateBase params b;
              tt = write_bytes tt0 0 (EncodeElement params True B)
          in \<lparr>XX = ephemeralOtherPublicKey, xxs = EphemeralPublicKeyLength D,
              YY = drop (StaticPrivateKeyLength D) ephemeralPrivateKey,
              yys = EphemeralPublicKeyLength D,
              AA = staticOtherPublicKey, aas = StaticPublicKeyLength D,
              BB = tt, bbs = length tt0\<rparr>
      | RoleClient \<Rightarrow>
          let a = Integer_Decode staticPrivateKey (StaticPrivateKeyLength D);
              A = ExponentiateBase params a;
              tt = write_bytes tt0 0 (EncodeElement params True A)
          in \<lparr>XX = drop (StaticPrivateKeyLength D) ephemeralPrivateKey,
              xxs = EphemeralPublicKeyLength D,
              YY = ephemeralOtherPublicKey, yys = EphemeralPublicKeyLength D,
              AA = tt, aas = length tt0,
              BB = staticOtherPublicKey, bbs = StaticPublicKeyLength D\<rparr>)"

text \<open>Lines 199 to 210: the counterpart's two public keys are decoded and validated.\<close>

definition Agree_validate ::
  "'e FHMQV_Domain \<Rightarrow> byte list \<Rightarrow> byte list \<Rightarrow> bool \<Rightarrow> unit flow" where
  "Agree_validate D staticOtherPublicKey ephemeralOtherPublicKey validateStaticOtherPublicKey =
     (let params = GetAbstractGroupParameters D
      in case DecodeElement params staticOtherPublicKey False of
        None \<Rightarrow> Throw DL_BadElement
      | Some VV1 \<Rightarrow>
          if \<not> ValidateElement params (if validateStaticOtherPublicKey then 3 else 1) VV1
          then Return False
          else
            (case DecodeElement params ephemeralOtherPublicKey False of
               None \<Rightarrow> Throw DL_BadElement
             | Some VV2 \<Rightarrow>
                 if \<not> ValidateElement params 3 VV2 then Return False else Normal ()))"

text \<open>Line 214: the length of the challenges, in bytes.\<close>

definition challenge_len :: "int \<Rightarrow> nat" where
  "challenge_len q = ((BitCount q + 1) div 2 + 7) div 8"

text \<open>
  Lines 212 to 223: the two challenges. Line 212 reads the group order into \<open>p\<close>, which
  nothing uses.
\<close>

definition Agree_challenges ::
  "HASH \<Rightarrow> 'e FHMQV_Domain \<Rightarrow> environment \<Rightarrow> operands \<Rightarrow> (int \<times> int) flow" where
  "Agree_challenges H D env L =
     (let params = GetAbstractGroupParameters D;
          q = GetSubgroupOrder params;
          len = challenge_len q;
          dd0 = SecByteBlock env Block_dd len;
          ee0 = SecByteBlock env Block_ee len
      in case Hash H D env None (XX L) (xxs L) (YY L) (yys L) (AA L) (aas L) (BB L) (bbs L)
                dd0 (length dd0) of
        None \<Rightarrow> Abort
      | Some dd \<Rightarrow>
          let d = Integer_Decode dd (length dd0)
          in (case Hash H D env None (YY L) (yys L) (XX L) (xxs L) (AA L) (aas L) (BB L) (bbs L)
                     ee0 (length ee0) of
                None \<Rightarrow> Abort
              | Some ee \<Rightarrow>
                  let e = Integer_Decode ee (length ee0)
                  in Normal (d, e)))"

text \<open>Lines 225 to 253: the combined exponent and the shared element.\<close>

definition Agree_sigma ::
  "'e FHMQV_Domain \<Rightarrow> operands \<Rightarrow> int \<Rightarrow> int \<Rightarrow> byte list \<Rightarrow> byte list \<Rightarrow> 'e flow" where
  "Agree_sigma D L d e staticPrivateKey ephemeralPrivateKey =
     (let params = GetAbstractGroupParameters D;
          q = GetSubgroupOrder params
      in case m_role D of
        RoleServer \<Rightarrow>
          let y = Integer_Decode ephemeralPrivateKey (StaticPrivateKeyLength D);
              b = Integer_Decode staticPrivateKey (StaticPrivateKeyLength D)
          in (case Integer_mod (y + e * b) q of
                Inl ex \<Rightarrow> Throw ex
              | Inr s_B \<Rightarrow>
                  (case DecodeElement params (AA L) False of
                     None \<Rightarrow> Throw DL_BadElement
                   | Some A \<Rightarrow>
                       (case DecodeElement params (XX L) False of
                          None \<Rightarrow> Throw DL_BadElement
                        | Some X \<Rightarrow>
                            let t1 = ExponentiateElement params A d;
                                t2 = MultiplyElements (m_groupParameters D) X t1
                            in Normal (ExponentiateElement params t2 s_B))))
      | RoleClient \<Rightarrow>
          let x = Integer_Decode ephemeralPrivateKey (StaticPrivateKeyLength D);
              a = Integer_Decode staticPrivateKey (StaticPrivateKeyLength D)
          in (case Integer_mod (x + d * a) q of
                Inl ex \<Rightarrow> Throw ex
              | Inr s_A \<Rightarrow>
                  (case DecodeElement params (BB L) False of
                     None \<Rightarrow> Throw DL_BadElement
                   | Some B \<Rightarrow>
                       (case DecodeElement params (YY L) False of
                          None \<Rightarrow> Throw DL_BadElement
                        | Some Y \<Rightarrow>
                            let t1 = ExponentiateElement params B e;
                                t2 = MultiplyElements (m_groupParameters D) Y t1
                            in Normal (ExponentiateElement params t2 s_A)))))"

text \<open>
  The body of the \<open>try\<close> block. The second component is \<open>agreedValue\<close> as the block
  leaves it: only the call of line 255 writes to it.
\<close>

definition Agree_try ::
  "HASH \<Rightarrow> 'e FHMQV_Domain \<Rightarrow> environment \<Rightarrow> byte list \<Rightarrow> byte list \<Rightarrow> byte list \<Rightarrow>
   byte list \<Rightarrow> byte list \<Rightarrow> bool \<Rightarrow> unit flow \<times> byte list" where
  "Agree_try H D env agreedValue staticPrivateKey ephemeralPrivateKey staticOtherPublicKey
       ephemeralOtherPublicKey validateStaticOtherPublicKey =
     (let L = Agree_operands D env staticPrivateKey ephemeralPrivateKey staticOtherPublicKey
                ephemeralOtherPublicKey
      in case Agree_validate D staticOtherPublicKey ephemeralOtherPublicKey
                validateStaticOtherPublicKey of
        Return r \<Rightarrow> (Return r, agreedValue)
      | Throw ex \<Rightarrow> (Throw ex, agreedValue)
      | Abort \<Rightarrow> (Abort, agreedValue)
      | Normal u \<Rightarrow>
          (case Agree_challenges H D env L of
             Return r \<Rightarrow> (Return r, agreedValue)
           | Throw ex \<Rightarrow> (Throw ex, agreedValue)
           | Abort \<Rightarrow> (Abort, agreedValue)
           | Normal (d, e) \<Rightarrow>
               (case Agree_sigma D L d e staticPrivateKey ephemeralPrivateKey of
                  Return r \<Rightarrow> (Return r, agreedValue)
                | Throw ex \<Rightarrow> (Throw ex, agreedValue)
                | Abort \<Rightarrow> (Abort, agreedValue)
                | Normal sigma \<Rightarrow>
                    (case Hash H D env (Some sigma) (XX L) (xxs L) (YY L) (yys L) (AA L) (aas L)
                            (BB L) (bbs L) agreedValue (AgreedValueLength H D) of
                       None \<Rightarrow> (Abort, agreedValue)
                     | Some agreedValue' \<Rightarrow> (Normal (), agreedValue')))))"

text \<open>
  \<open>Agree\<close>: the \<open>try\<close> block, the handler of line 257, which catches \<open>DL_BadElement\<close>
  only, and the \<open>return true\<close> of line 261. The result is what the caller observes and
  the contents of \<open>agreedValue\<close> afterwards.
\<close>

definition Agree ::
  "HASH \<Rightarrow> 'e FHMQV_Domain \<Rightarrow> environment \<Rightarrow> byte list \<Rightarrow> byte list \<Rightarrow> byte list \<Rightarrow>
   byte list \<Rightarrow> byte list \<Rightarrow> bool \<Rightarrow> bool outcome \<times> byte list" where
  "Agree H D env agreedValue staticPrivateKey ephemeralPrivateKey staticOtherPublicKey
       ephemeralOtherPublicKey validateStaticOtherPublicKey =
     (case Agree_try H D env agreedValue staticPrivateKey ephemeralPrivateKey staticOtherPublicKey
             ephemeralOtherPublicKey validateStaticOtherPublicKey of
        (Normal u, agreedValue') \<Rightarrow> (Returned True, agreedValue')
      | (Return r, agreedValue') \<Rightarrow> (Returned r, agreedValue')
      | (Throw DL_BadElement, agreedValue') \<Rightarrow> (Returned False, agreedValue')
      | (Throw DivideByZero, agreedValue') \<Rightarrow> (Raised DivideByZero, agreedValue')
      | (Abort, agreedValue') \<Rightarrow> (AssertionFailed, agreedValue'))"

section \<open>The formulas of the specification\<close>

text \<open>
  The challenge length as the specification words it:
  \<open>ceil(ceil((bitlength(q)+1)/2)/8)\<close>, over the reals.
\<close>

definition spec_challenge_len :: "int \<Rightarrow> nat" where
  "spec_challenge_len q = nat \<lceil>real_of_int \<lceil>(real (BitCount q) + 1) / 2\<rceil> / 8\<rceil>"

text \<open>
  The contracts the specification assumes of the template parameters. The digest of the
  hash has its native size. The element encoder writes as many bytes as
  \<open>GetEncodedElementSize\<close> declares.
\<close>

definition valid_hash :: "HASH \<Rightarrow> bool" where
  "valid_hash H \<longleftrightarrow> (\<forall>m. length (digest_of H m) = DIGESTSIZE H)"

definition encoder_fills :: "'e DL_GroupParameters \<Rightarrow> bool" where
  "encoder_fills G \<longleftrightarrow> (\<forall>g. length (EncodeElement G True g) = GetEncodedElementSize G True)"

text \<open>
  Valid group parameters: the subgroup order is positive and the powers of the base
  form a group of that order (multiplying adds exponents, exponentiating multiplies
  them, exponents count modulo the subgroup order); and the public key of a private
  exponent between 1 and the maximal exponent survives encoding and decoding and passes
  validation at the levels 1 and 3. Nothing is asked of the decoder on other bytes, nor
  on the identity.
\<close>

definition valid_group_parameters :: "'e DL_GroupParameters \<Rightarrow> bool" where
  "valid_group_parameters G \<longleftrightarrow>
     0 < GetSubgroupOrder G
     \<and> encoder_fills G
     \<and> (\<forall>m n. 0 \<le> m \<longrightarrow> 0 \<le> n \<longrightarrow>
            MultiplyElements G (ExponentiateBase G m) (ExponentiateBase G n)
              = ExponentiateBase G (m + n))
     \<and> (\<forall>m n. 0 \<le> m \<longrightarrow> 0 \<le> n \<longrightarrow>
            ExponentiateElement G (ExponentiateBase G m) n = ExponentiateBase G (m * n))
     \<and> (\<forall>m. 0 \<le> m \<longrightarrow>
            ExponentiateBase G (m mod GetSubgroupOrder G) = ExponentiateBase G m)
     \<and> (\<forall>m. 1 \<le> m \<longrightarrow> m \<le> GetMaxExponent G \<longrightarrow>
            DecodeElement G (EncodeElement G True (ExponentiateBase G m)) False
              = Some (ExponentiateBase G m))
     \<and> (\<forall>m. 1 \<le> m \<longrightarrow> m \<le> GetMaxExponent G \<longrightarrow>
            ValidateElement G 1 (ExponentiateBase G m)
            \<and> ValidateElement G 3 (ExponentiateBase G m))"

text \<open>
  The public key of a private exponent given by its bytes: the encoding of the base
  raised to it.
\<close>

definition public_key_of :: "'e FHMQV_Domain \<Rightarrow> byte list \<Rightarrow> byte list" where
  "public_key_of D k =
     EncodeElement (GetAbstractGroupParameters D) True
       (ExponentiateBase (GetAbstractGroupParameters D)
          (Integer_Decode k (StaticPrivateKeyLength D)))"

text \<open>
  The labelled operands of the specification (section 4.3, step 1): the Client plays the
  \<open>A\<close> and \<open>X\<close> slots, the Server the \<open>B\<close> and \<open>Y\<close> slots. The caller's own ephemeral
  public key is the tail of its ephemeral private key.
\<close>

definition spec_X :: "'e FHMQV_Domain \<Rightarrow> byte list \<Rightarrow> byte list \<Rightarrow> byte list" where
  "spec_X D ephemeralPrivateKey ephemeralOtherPublicKey =
     (case m_role D of
        RoleClient \<Rightarrow>
          take (EphemeralPublicKeyLength D) (drop (StaticPrivateKeyLength D) ephemeralPrivateKey)
      | RoleServer \<Rightarrow> take (EphemeralPublicKeyLength D) ephemeralOtherPublicKey)"

definition spec_Y :: "'e FHMQV_Domain \<Rightarrow> byte list \<Rightarrow> byte list \<Rightarrow> byte list" where
  "spec_Y D ephemeralPrivateKey ephemeralOtherPublicKey =
     (case m_role D of
        RoleClient \<Rightarrow> take (EphemeralPublicKeyLength D) ephemeralOtherPublicKey
      | RoleServer \<Rightarrow>
          take (EphemeralPublicKeyLength D) (drop (StaticPrivateKeyLength D) ephemeralPrivateKey))"

definition spec_A :: "'e FHMQV_Domain \<Rightarrow> byte list \<Rightarrow> byte list \<Rightarrow> byte list" where
  "spec_A D staticPrivateKey staticOtherPublicKey =
     (case m_role D of
        RoleClient \<Rightarrow> public_key_of D staticPrivateKey
      | RoleServer \<Rightarrow> take (StaticPublicKeyLength D) staticOtherPublicKey)"

definition spec_B :: "'e FHMQV_Domain \<Rightarrow> byte list \<Rightarrow> byte list \<Rightarrow> byte list" where
  "spec_B D staticPrivateKey staticOtherPublicKey =
     (case m_role D of
        RoleClient \<Rightarrow> take (StaticPublicKeyLength D) staticOtherPublicKey
      | RoleServer \<Rightarrow> public_key_of D staticPrivateKey)"

text \<open>
  A challenge (section 4.2): the hash of four operands with no \<open>sigma\<close> before them,
  cut to \<open>len\<close> bytes and read as a big-endian integer. The agreed value: the hash of
  the encoded \<open>sigma\<close> and the four operands, cut to the digest size.
\<close>

definition spec_challenge ::
  "HASH \<Rightarrow> nat \<Rightarrow> byte list \<Rightarrow> byte list \<Rightarrow> byte list \<Rightarrow> byte list \<Rightarrow> int" where
  "spec_challenge H len P1 P2 S1 S2 =
     Integer_Decode (take len (digest_of H (P1 @ P2 @ S1 @ S2))) len"

definition spec_agreed_value ::
  "HASH \<Rightarrow> 'e DL_GroupParameters \<Rightarrow> 'e \<Rightarrow> byte list \<Rightarrow> byte list \<Rightarrow> byte list \<Rightarrow>
   byte list \<Rightarrow> byte list" where
  "spec_agreed_value H G sigma X Y A B =
     take (DIGESTSIZE H) (digest_of H (EncodeElement G True sigma @ X @ Y @ A @ B))"

text \<open>
  The shared element (section 4.3, step 5). \<open>S\<close> and \<open>E\<close> are the counterpart's static and
  ephemeral public elements: \<open>B\<close> and \<open>Y\<close> for the Client, \<open>A\<close> and \<open>X\<close> for the Server.
  The caller's exponents are read from its static private key and from the head of its
  ephemeral private key.
\<close>

definition spec_sigma ::
  "'e FHMQV_Domain \<Rightarrow> byte list \<Rightarrow> byte list \<Rightarrow> int \<Rightarrow> int \<Rightarrow> 'e \<Rightarrow> 'e \<Rightarrow> 'e" where
  "spec_sigma D staticPrivateKey ephemeralPrivateKey d e S E =
     (let G = GetAbstractGroupParameters D;
          q = GetSubgroupOrder G;
          static = Integer_Decode staticPrivateKey (StaticPrivateKeyLength D);
          ephemeral = Integer_Decode ephemeralPrivateKey (StaticPrivateKeyLength D)
      in case m_role D of
        RoleClient \<Rightarrow>
          ExponentiateElement G (MultiplyElements G E (ExponentiateElement G S e))
            ((ephemeral + d * static) mod q)
      | RoleServer \<Rightarrow>
          ExponentiateElement G (MultiplyElements G E (ExponentiateElement G S d))
            ((ephemeral + e * static) mod q))"

text \<open>
  The bytes of a private key as the data model has it: an exponent between 1 and the
  maximal exponent, in as many bytes as the subgroup order takes.
\<close>

definition private_key_bytes :: "'e FHMQV_Domain \<Rightarrow> byte list \<Rightarrow> bool" where
  "private_key_bytes D k \<longleftrightarrow>
     length k = StaticPrivateKeyLength D
     \<and> 1 \<le> Integer_Decode k (StaticPrivateKeyLength D)
     \<and> Integer_Decode k (StaticPrivateKeyLength D)
         \<le> GetMaxExponent (GetAbstractGroupParameters D)"

section \<open>An auxiliary view of Agree\<close>

text \<open>
  For the proofs: the statements of the \<open>try\<close> block before line 255 as one computation,
  which does not touch \<open>agreedValue\<close>. \<open>Agree_try\<close> is this computation followed by the
  last call of \<open>Hash\<close>.
\<close>

definition Agree_upto_sigma ::
  "HASH \<Rightarrow> 'e FHMQV_Domain \<Rightarrow> environment \<Rightarrow> byte list \<Rightarrow> byte list \<Rightarrow> byte list \<Rightarrow>
   byte list \<Rightarrow> bool \<Rightarrow> 'e flow" where
  "Agree_upto_sigma H D env staticPrivateKey ephemeralPrivateKey staticOtherPublicKey
       ephemeralOtherPublicKey validateStaticOtherPublicKey =
     (let L = Agree_operands D env staticPrivateKey ephemeralPrivateKey staticOtherPublicKey
                ephemeralOtherPublicKey
      in case Agree_validate D staticOtherPublicKey ephemeralOtherPublicKey
                validateStaticOtherPublicKey of
        Return r \<Rightarrow> Return r
      | Throw ex \<Rightarrow> Throw ex
      | Abort \<Rightarrow> Abort
      | Normal u \<Rightarrow>
          (case Agree_challenges H D env L of
             Return r \<Rightarrow> Return r
           | Throw ex \<Rightarrow> Throw ex
           | Abort \<Rightarrow> Abort
           | Normal (d, e) \<Rightarrow> Agree_sigma D L d e staticPrivateKey ephemeralPrivateKey))"

section \<open>A small instance\<close>

text \<open>
  The subgroup of order 11 that 2 generates in the integers modulo 23, with elements
  encoded in one byte, and a two-byte hash that depends on the order of its input.
\<close>

definition toy_group :: "int DL_GroupParameters" where
  "toy_group =
     \<lparr>GetGroupOrder = 22,
      GetSubgroupOrder = 11,
      GetMaxExponent = 10,
      GetEncodedElementSize = (\<lambda>reversible. 1),
      ExponentiateBase = (\<lambda>n. 2 ^ nat n mod 23),
      ExponentiateElement = (\<lambda>g n. g ^ nat n mod 23),
      MultiplyElements = (\<lambda>g h. g * h mod 23),
      EncodeElement = (\<lambda>reversible g. [word_of_int g]),
      DecodeElement = (\<lambda>encoded checkForGroupMembership.
         case encoded of
           [] \<Rightarrow> None
         | c # cs \<Rightarrow>
             if checkForGroupMembership \<and> \<not> (1 < uint c \<and> uint c < 23) then None
             else Some (uint c)),
      ValidateElement = (\<lambda>level g.
         1 < g \<and> g < 23 \<and> (if 2 \<le> level then g ^ 11 mod 23 = 1 else True))\<rparr>"

definition toy_hash :: HASH where
  "toy_hash =
     \<lparr>DIGESTSIZE = 2,
      digest_of = (\<lambda>m. [foldl (\<lambda>acc c. 3 * acc + c) 7 m, word_of_nat (length m)])\<rparr>"

definition toy_client :: "int FHMQV_Domain" where
  "toy_client = new_FHMQV_Domain toy_group True"

definition toy_server :: "int FHMQV_Domain" where
  "toy_server = new_FHMQV_Domain toy_group False"

text \<open>
  A build with assertions and a build without them (\<open>NDEBUG\<close> defined), each on a
  memory whose stale bytes all have the value \<open>s\<close>, in every block; and a generator
  that draws from a counter.
\<close>

definition debug_build :: "byte \<Rightarrow> environment" where
  "debug_build s = \<lparr>NDEBUG = False, stale = (\<lambda>b i. s)\<rparr>"

definition release_build :: "byte \<Rightarrow> environment" where
  "release_build s = \<lparr>NDEBUG = True, stale = (\<lambda>b i. s)\<rparr>"

definition toy_env :: environment where
  "toy_env = debug_build 170"

definition toy_rng :: "nat RandomNumberGenerator" where
  "toy_rng =
     \<lparr>rng_state = 4,
      rng_Integer = (\<lambda>s lo hi. (lo + int s mod (hi - lo + 1), Suc s))\<rparr>"

section \<open>A large instance\<close>

text \<open>
  The integers modulo \<open>q\<close> under addition, with the base 1, are a cyclic group of order
  \<open>q\<close> for every positive \<open>q\<close>: raising the base to \<open>n\<close> gives \<open>n mod q\<close>. Elements
  are encoded in as many bytes as \<open>q\<close> takes; every element but the identity is valid.
\<close>

definition additive_group :: "int \<Rightarrow> int DL_GroupParameters" where
  "additive_group q =
     \<lparr>GetGroupOrder = q,
      GetSubgroupOrder = q,
      GetMaxExponent = q - 1,
      GetEncodedElementSize = (\<lambda>reversible. ByteCount q),
      ExponentiateBase = (\<lambda>n. n mod q),
      ExponentiateElement = (\<lambda>g n. g * n mod q),
      MultiplyElements = (\<lambda>g h. (g + h) mod q),
      EncodeElement = (\<lambda>reversible g. Integer_Encode g (ByteCount q)),
      DecodeElement = (\<lambda>encoded checkForGroupMembership.
         if length encoded < ByteCount q then None
         else
           let g = Integer_Decode encoded (ByteCount q)
           in if checkForGroupMembership \<and> \<not> (0 < g \<and> g < q) then None else Some g),
      ValidateElement = (\<lambda>level g. 0 < g \<and> g < q)\<rparr>"

text \<open>
  The order of the curve P-521, which has 521 bits, and a hash with a digest of 32 bytes,
  the size of SHA-256, the default \<open>HASH\<close> of the template: thirty zero bytes and
  the two bytes of the small hash.
\<close>

definition order_P521 :: int where
  "order_P521 = 6864797660130609714981900799081393217269435300143305409394463459185543183397655394245057746333217197532963996371363321113864768612440380340372808892707005449"

definition hash32 :: HASH where
  "hash32 =
     \<lparr>DIGESTSIZE = 32,
      digest_of = (\<lambda>m. replicate 30 0 @ digest_of toy_hash m)\<rparr>"

definition P521_client :: "int FHMQV_Domain" where
  "P521_client = new_FHMQV_Domain (additive_group order_P521) True"

definition P521_server :: "int FHMQV_Domain" where
  "P521_server = new_FHMQV_Domain (additive_group order_P521) False"

section \<open>Lemmas\<close>

subsection \<open>Arithmetic of the challenge length\<close>

lemma floor_half: "\<lfloor>(real n + 1) / 2\<rfloor> = int ((n + 1) div 2)"
proof -
  have "(real n + 1) / 2 = real (n + 1) / real 2" by simp
  then show ?thesis by (simp only: floor_divide_of_nat_eq)
qed

lemma ceiling_eighth: "nat \<lceil>real_of_int (int m) / 8\<rceil> = (m + 7) div 8"
proof -
  have "\<lceil>real_of_int (int m) / real_of_int 8\<rceil> = - (- int m div 8)"
    by (rule ceiling_divide_eq_div)
  also have "\<dots> = (int m + 7) div 8" by presburger
  finally have "\<lceil>real_of_int (int m) / 8\<rceil> = int ((m + 7) div 8)"
    by (simp add: zdiv_int)
  then show ?thesis by simp
qed

lemma bit_length_bound: "n < 2 ^ bit_length n"
proof (induction n rule: bit_length.induct)
  case (1 n)
  show ?case
  proof (cases "n = 0")
    case True
    then show ?thesis by (simp add: bit_length.simps)
  next
    case False
    then have "n div 2 < 2 ^ bit_length (n div 2)" using 1 by simp
    then have "n < 2 * 2 ^ bit_length (n div 2)" by linarith
    then show ?thesis using False by (subst bit_length.simps) simp
  qed
qed

lemma ByteCount_bound:
  assumes "0 \<le> q"
  shows "q < 256 ^ ByteCount q"
proof -
  let ?b = "bit_length (nat q)"
  have "nat q < 2 ^ ?b" by (rule bit_length_bound)
  also have "(2::nat) ^ ?b \<le> 2 ^ (8 * ((?b + 7) div 8))"
    by (rule power_increasing) simp_all
  also have "(2::nat) ^ (8 * ((?b + 7) div 8)) = 256 ^ ((?b + 7) div 8)"
    by (simp add: power_mult)
  finally have "nat q < 256 ^ ((?b + 7) div 8)" .
  then have "int (nat q) < int (256 ^ ((?b + 7) div 8))" by (simp only: of_nat_less_iff)
  then show ?thesis using assms by (simp add: ByteCount_def BitCount_def)
qed

lemma bit_length_11: "bit_length 11 = 4"
  by (simp add: bit_length.simps)

lemma ByteCount_11: "ByteCount 11 = 1"
  by (simp add: ByteCount_def BitCount_def bit_length_11)

lemma bit_length_P256:
  "bit_length 115792089210356248762697446949407573529996955224135760342422259061068512044369 = 256"
  by (simp add: bit_length.simps)

lemma bit_length_P521:
  "bit_length 6864797660130609714981900799081393217269435300143305409394463459185543183397655394245057746333217197532963996371363321113864768612440380340372808892707005449 = 521"
  by (simp add: bit_length.simps)

subsection \<open>Buffers and the integer codec\<close>

lemma write_bytes_whole: "length buf \<le> length data \<Longrightarrow> write_bytes buf 0 data = data"
  by (simp add: write_bytes_def)

lemma length_SecByteBlock: "length (SecByteBlock env b n) = n"
  by (simp add: SecByteBlock_def)

lemma take_own_block:
  "length data = n \<Longrightarrow> take n (write_bytes (SecByteBlock env b n) 0 data) = data"
  by (simp add: write_bytes_whole length_SecByteBlock)

lemma foldl_decode_nonneg: "0 \<le> acc \<Longrightarrow> 0 \<le> foldl (\<lambda>acc b. acc * 256 + uint (b::byte)) acc bs"
  by (induction bs arbitrary: acc) simp_all

lemma Integer_Decode_nonneg: "0 \<le> Integer_Decode bs n"
  by (simp add: Integer_Decode_def foldl_decode_nonneg)

lemma Integer_Decode_append:
  "length k = n \<Longrightarrow> Integer_Decode (k @ rest) n = Integer_Decode k n"
  by (simp add: Integer_Decode_def)

lemma length_Integer_Encode: "length (Integer_Encode x n) = n"
  by (simp add: Integer_Encode_def)

lemma Integer_Encode_Suc:
  "Integer_Encode v (Suc n) = word_of_int (v div 256 ^ n) # Integer_Encode v n"
  by (simp add: Integer_Encode_def)

lemma foldl_decode_encode:
  "foldl (\<lambda>acc b. acc * 256 + uint (b::byte)) acc (Integer_Encode v n)
   = acc * 256 ^ n + v mod 256 ^ n"
proof (induction n arbitrary: acc)
  case 0
  then show ?case by (simp add: Integer_Encode_def)
next
  case (Suc n)
  have byte: "uint (word_of_int (v div 256 ^ n) :: byte) = (v div 256 ^ n) mod 256"
    by (simp add: uint_word_of_int take_bit_eq_mod)
  have split: "v mod (256 ^ n * 256) = 256 ^ n * ((v div 256 ^ n) mod 256) + v mod 256 ^ n"
    by (rule zmod_zmult2_eq) simp
  have "foldl (\<lambda>acc b. acc * 256 + uint (b::byte)) acc (Integer_Encode v (Suc n))
      = foldl (\<lambda>acc b. acc * 256 + uint (b::byte)) (acc * 256 + (v div 256 ^ n) mod 256)
          (Integer_Encode v n)"
    by (simp add: Integer_Encode_Suc byte)
  also have "\<dots> = (acc * 256 + (v div 256 ^ n) mod 256) * 256 ^ n + v mod 256 ^ n"
    by (rule Suc.IH)
  also have "\<dots> = acc * 256 ^ Suc n + v mod 256 ^ Suc n"
    using split by (simp add: algebra_simps)
  finally show ?case .
qed

lemma Integer_Decode_Encode: "Integer_Decode (Integer_Encode v n) n = v mod 256 ^ n"
  by (simp add: Integer_Decode_def length_Integer_Encode foldl_decode_encode)

lemma Integer_Encode_small:
  assumes "0 \<le> v" "v < 256 ^ k"
  shows "Integer_Encode v (n + k) = replicate n 0 @ Integer_Encode v k"
proof (induction n)
  case 0
  show ?case by simp
next
  case (Suc n)
  have "(256::int) ^ k \<le> 256 ^ (n + k)" by (intro power_increasing) simp_all
  then have "v < 256 ^ (n + k)" using assms(2) by linarith
  then have "v div 256 ^ (n + k) = 0" using assms(1) by (simp add: div_pos_pos_trivial)
  then show ?case using Suc by (simp add: Integer_Encode_Suc)
qed

lemma Integer_Decode_zeros:
  "Integer_Decode (replicate n 0 @ bs) (n + k) = Integer_Decode bs k"
proof -
  have "foldl (\<lambda>acc b. acc * 256 + uint (b::byte)) 0 (replicate n 0) = 0"
    by (induction n) simp_all
  then show ?thesis by (simp add: Integer_Decode_def)
qed

lemma SecByteBlock_release: "SecByteBlock (release_build s) b n = replicate n s"
  by (simp add: SecByteBlock_def release_build_def map_replicate_const)

subsection \<open>Hash\<close>

lemma Hash_without_sigma:
  assumes "valid_hash H" "dlen \<le> DIGESTSIZE H" "length digest = dlen"
  shows "Hash H D env None e1 e1len e2 e2len s1 s1len s2 s2len digest dlen
         = Some (take dlen (digest_of H
              (take e1len e1 @ take e2len e2 @ take s1len s1 @ take s2len s2)))"
proof -
  have "length (take dlen (digest_of H m)) = dlen" for m
    using assms by (simp add: valid_hash_def)
  then show ?thesis
    using assms by (simp add: Hash_def Update_def TruncatedFinal_def write_bytes_whole)
qed

lemma Hash_with_sigma:
  assumes "valid_hash H" "dlen \<le> DIGESTSIZE H" "length digest = dlen"
    and "length (EncodeElement (GetAbstractGroupParameters D) True s)
         = GetEncodedElementSize (GetAbstractGroupParameters D) True"
  shows "Hash H D env (Some s) e1 e1len e2 e2len s1 s1len s2 s2len digest dlen
         = Some (take dlen (digest_of H
              (EncodeElement (GetAbstractGroupParameters D) True s
               @ take e1len e1 @ take e2len e2 @ take s1len s1 @ take s2len s2)))"
proof -
  have "length (take dlen (digest_of H m)) = dlen" for m
    using assms by (simp add: valid_hash_def)
  then show ?thesis
    using assms
    by (simp add: Hash_def Update_def TruncatedFinal_def write_bytes_whole Let_def
        length_SecByteBlock)
qed

lemma Hash_beyond_digest:
  assumes "valid_hash H" "NDEBUG env" "DIGESTSIZE H < dlen" "length digest = dlen"
  shows "Hash H D env None e1 e1len e2 e2len s1 s1len s2 s2len digest dlen
         = Some (digest_of H (take e1len e1 @ take e2len e2 @ take s1len s1 @ take s2len s2)
                 @ drop (DIGESTSIZE H) digest)"
proof -
  have "length (digest_of H m) = DIGESTSIZE H" for m
    using assms(1) by (simp add: valid_hash_def)
  then show ?thesis
    using assms(2,3)
    by (simp add: Hash_def Update_def TruncatedFinal_def write_bytes_def min_def)
qed

lemma Hash_assertion:
  "\<not> NDEBUG env \<Longrightarrow> \<not> dlen \<le> DIGESTSIZE H \<Longrightarrow>
   Hash H D env sigma e1 e1len e2 e2len s1 s1len s2 s2len digest dlen = None"
  by (simp add: Hash_def)

subsection \<open>The stages of Agree\<close>

lemma new_FHMQV_Domain_simps:
  "m_role (new_FHMQV_Domain G True) = RoleClient"
  "m_role (new_FHMQV_Domain G False) = RoleServer"
  "GetAbstractGroupParameters (new_FHMQV_Domain G c) = G"
  "StaticPrivateKeyLength (new_FHMQV_Domain G c) = ByteCount (GetSubgroupOrder G)"
  "StaticPublicKeyLength (new_FHMQV_Domain G c) = GetEncodedElementSize G True"
  "EphemeralPublicKeyLength (new_FHMQV_Domain G c) = GetEncodedElementSize G True"
  by (simp_all add: new_FHMQV_Domain_def GetAbstractGroupParameters_def
      StaticPrivateKeyLength_def StaticPublicKeyLength_def EphemeralPublicKeyLength_def)

lemma operands_labelled:
  fixes D :: "'e FHMQV_Domain" and env :: environment and sk ek so eo :: "byte list"
  assumes "encoder_fills (GetAbstractGroupParameters D)"
  defines "L \<equiv> Agree_operands D env sk ek so eo"
  shows "take (xxs L) (XX L) = spec_X D ek eo"
    and "take (yys L) (YY L) = spec_Y D ek eo"
    and "take (aas L) (AA L) = spec_A D sk so"
    and "take (bbs L) (BB L) = spec_B D sk so"
proof -
  have fill: "length (EncodeElement (GetAbstractGroupParameters D) True g) = StaticPublicKeyLength D" for g
    using assms(1) by (simp add: encoder_fills_def StaticPublicKeyLength_def)
  show "take (xxs L) (XX L) = spec_X D ek eo"
    by (cases "m_role D") (simp_all add: L_def Agree_operands_def Let_def spec_X_def)
  show "take (yys L) (YY L) = spec_Y D ek eo"
    by (cases "m_role D") (simp_all add: L_def Agree_operands_def Let_def spec_Y_def)
  show "take (aas L) (AA L) = spec_A D sk so"
    by (cases "m_role D")
      (simp_all add: L_def Agree_operands_def Let_def spec_A_def public_key_of_def
        length_SecByteBlock take_own_block fill)
  show "take (bbs L) (BB L) = spec_B D sk so"
    by (cases "m_role D")
      (simp_all add: L_def Agree_operands_def Let_def spec_B_def public_key_of_def
        length_SecByteBlock take_own_block fill)
qed

lemma operands_pointers:
  "m_role D = RoleClient \<Longrightarrow> BB (Agree_operands D env sk ek so eo) = so"
  "m_role D = RoleClient \<Longrightarrow> YY (Agree_operands D env sk ek so eo) = eo"
  "m_role D = RoleServer \<Longrightarrow> AA (Agree_operands D env sk ek so eo) = so"
  "m_role D = RoleServer \<Longrightarrow> XX (Agree_operands D env sk ek so eo) = eo"
  by (simp_all add: Agree_operands_def Let_def)

lemma Agree_validate_Normal:
  "Agree_validate D so eo v = Normal u \<longleftrightarrow>
     (\<exists>V1 V2. DecodeElement (GetAbstractGroupParameters D) so False = Some V1
        \<and> ValidateElement (GetAbstractGroupParameters D) (if v then 3 else 1) V1
        \<and> DecodeElement (GetAbstractGroupParameters D) eo False = Some V2
        \<and> ValidateElement (GetAbstractGroupParameters D) 3 V2)"
  by (auto simp add: Agree_validate_def Let_def split: option.splits)

lemma Agree_validate_range:
  "Agree_validate D so eo v = Normal () \<or> Agree_validate D so eo v = Return False
   \<or> Agree_validate D so eo v = Throw DL_BadElement"
  by (simp add: Agree_validate_def Let_def split: option.splits)

lemma Agree_validate_no_DivideByZero: "Agree_validate D so eo v \<noteq> Throw DivideByZero"
  using Agree_validate_range [of D so eo v] by auto

lemma Agree_challenges_eq:
  assumes "valid_hash H"
    and "challenge_len (GetSubgroupOrder (GetAbstractGroupParameters D)) \<le> DIGESTSIZE H"
  shows "Agree_challenges H D env L =
     Normal
      (spec_challenge H (challenge_len (GetSubgroupOrder (GetAbstractGroupParameters D)))
         (take (xxs L) (XX L)) (take (yys L) (YY L)) (take (aas L) (AA L)) (take (bbs L) (BB L)),
       spec_challenge H (challenge_len (GetSubgroupOrder (GetAbstractGroupParameters D)))
         (take (yys L) (YY L)) (take (xxs L) (XX L)) (take (aas L) (AA L)) (take (bbs L) (BB L)))"
  using assms
  by (simp add: Agree_challenges_def Let_def length_SecByteBlock Hash_without_sigma
      spec_challenge_def)

lemma Agree_challenges_abort:
  assumes "\<not> challenge_len (GetSubgroupOrder (GetAbstractGroupParameters D)) \<le> DIGESTSIZE H"
    and "\<not> NDEBUG env"
  shows "Agree_challenges H D env L = Abort"
  using assms by (simp add: Agree_challenges_def Let_def length_SecByteBlock Hash_assertion)

text \<open>
  A challenge decoded from a block that the hash did not fill: the digest, and after it
  the stale bytes of the block from the digest size on.
\<close>

lemma Agree_challenges_beyond_digest:
  assumes "valid_hash H" and "NDEBUG env"
    and "\<not> challenge_len (GetSubgroupOrder (GetAbstractGroupParameters D)) \<le> DIGESTSIZE H"
  shows "Agree_challenges H D env L =
     Normal
      (Integer_Decode
         (digest_of H (take (xxs L) (XX L) @ take (yys L) (YY L) @ take (aas L) (AA L)
                       @ take (bbs L) (BB L))
          @ drop (DIGESTSIZE H)
              (SecByteBlock env Block_dd (challenge_len (GetSubgroupOrder (GetAbstractGroupParameters D)))))
         (challenge_len (GetSubgroupOrder (GetAbstractGroupParameters D))),
       Integer_Decode
         (digest_of H (take (yys L) (YY L) @ take (xxs L) (XX L) @ take (aas L) (AA L)
                       @ take (bbs L) (BB L))
          @ drop (DIGESTSIZE H)
              (SecByteBlock env Block_ee (challenge_len (GetSubgroupOrder (GetAbstractGroupParameters D)))))
         (challenge_len (GetSubgroupOrder (GetAbstractGroupParameters D))))"
  using assms
  by (simp add: Agree_challenges_def Let_def length_SecByteBlock Hash_beyond_digest)

lemma Agree_challenges_range:
  "(\<exists>d e. Agree_challenges H D env L = Normal (d, e)) \<or> Agree_challenges H D env L = Abort"
  by (simp add: Agree_challenges_def Let_def split: option.splits)

lemma Agree_challenges_no_Throw: "Agree_challenges H D env L \<noteq> Throw ex"
  using Agree_challenges_range [of H D env L] by auto

lemma Agree_challenges_no_Return: "Agree_challenges H D env L \<noteq> Return r"
  using Agree_challenges_range [of H D env L] by auto

lemma Agree_sigma_eq:
  assumes "0 < GetSubgroupOrder (GetAbstractGroupParameters D)"
    and "DecodeElement (GetAbstractGroupParameters D) so False = Some S"
    and "DecodeElement (GetAbstractGroupParameters D) eo False = Some E"
  shows "Agree_sigma D (Agree_operands D env sk ek so eo) d e sk ek
         = Normal (spec_sigma D sk ek d e S E)"
  using assms
  by (cases "m_role D")
    (simp_all add: Agree_sigma_def spec_sigma_def operands_pointers Integer_mod_def Let_def
      GetAbstractGroupParameters_def)

lemma Agree_sigma_range:
  "(\<exists>s. Agree_sigma D L d e sk ek = Normal s) \<or> Agree_sigma D L d e sk ek = Throw DL_BadElement
   \<or> (Agree_sigma D L d e sk ek = Throw DivideByZero
        \<and> GetSubgroupOrder (GetAbstractGroupParameters D) = 0)"
  by (cases "m_role D")
    (auto simp add: Agree_sigma_def Let_def Integer_mod_def split: option.splits)

lemma Agree_sigma_DivideByZero:
  "Agree_sigma D L d e sk ek = Throw DivideByZero \<Longrightarrow>
   GetSubgroupOrder (GetAbstractGroupParameters D) = 0"
  using Agree_sigma_range [of D L d e sk ek] by auto

lemma Agree_sigma_no_Return: "Agree_sigma D L d e sk ek \<noteq> Return r"
  using Agree_sigma_range [of D L d e sk ek] by auto

subsection \<open>The outcomes of Agree\<close>

lemma Agree_outcomes:
  fixes D :: "'e FHMQV_Domain" and H env av sk ek so eo v
  defines "r \<equiv> Agree H D env av sk ek so eo v"
  shows "fst r \<noteq> Raised DL_BadElement"
    and "GetSubgroupOrder (GetAbstractGroupParameters D) \<noteq> 0 \<Longrightarrow> fst r \<noteq> Raised ex"
    and "Agree_validate D so eo v \<noteq> Normal () \<Longrightarrow> r = (Returned False, av)"
    and "fst r \<noteq> Returned True \<Longrightarrow> snd r = av"
proof -
  let ?L = "Agree_operands D env sk ek so eo"
  note defs = r_def Agree_def Agree_try_def Let_def
  show "fst r \<noteq> Raised DL_BadElement"
    by (simp add: defs split: flow.splits exception.splits option.splits prod.splits)
  show "fst r \<noteq> Raised ex" if "GetSubgroupOrder (GetAbstractGroupParameters D) \<noteq> 0"
    using that
    by (auto simp add: defs Agree_challenges_no_Throw Agree_validate_no_DivideByZero
        dest: Agree_sigma_DivideByZero
        split: flow.splits exception.splits option.splits prod.splits)
  show "r = (Returned False, av)" if "Agree_validate D so eo v \<noteq> Normal ()"
    using that Agree_validate_range [of D so eo v]
    by (auto simp add: defs split: flow.splits exception.splits option.splits prod.splits)
  show "snd r = av" if "fst r \<noteq> Returned True"
    using that
    by (auto simp add: defs split: flow.splits exception.splits option.splits prod.splits)
qed

lemma Agree_try_eq:
  "Agree_try H D env av sk ek so eo v =
     (case Agree_upto_sigma H D env sk ek so eo v of
        Return r \<Rightarrow> (Return r, av)
      | Throw ex \<Rightarrow> (Throw ex, av)
      | Abort \<Rightarrow> (Abort, av)
      | Normal sigma \<Rightarrow>
          (case Hash H D env (Some sigma)
                  (XX (Agree_operands D env sk ek so eo)) (xxs (Agree_operands D env sk ek so eo))
                  (YY (Agree_operands D env sk ek so eo)) (yys (Agree_operands D env sk ek so eo))
                  (AA (Agree_operands D env sk ek so eo)) (aas (Agree_operands D env sk ek so eo))
                  (BB (Agree_operands D env sk ek so eo)) (bbs (Agree_operands D env sk ek so eo))
                  av (AgreedValueLength H D) of
             None \<Rightarrow> (Abort, av)
           | Some av' \<Rightarrow> (Normal (), av')))"
  by (simp add: Agree_try_def Agree_upto_sigma_def Let_def split: flow.splits prod.splits)

lemma Agree_upto_sigma_no_Return_True: "Agree_upto_sigma H D env sk ek so eo v \<noteq> Return True"
  using Agree_validate_range [of D so eo v]
  by (auto simp add: Agree_upto_sigma_def Let_def Agree_sigma_no_Return
      Agree_challenges_no_Return split: flow.splits prod.splits)

lemma Agree_upto_sigma_Normal:
  "Agree_upto_sigma H D env sk ek so eo v = Normal sigma \<longleftrightarrow>
     Agree_validate D so eo v = Normal ()
     \<and> (\<exists>d e. Agree_challenges H D env (Agree_operands D env sk ek so eo) = Normal (d, e)
          \<and> Agree_sigma D (Agree_operands D env sk ek so eo) d e sk ek = Normal sigma)"
  by (auto simp add: Agree_upto_sigma_def Let_def split: flow.splits prod.splits)

lemma Agree_True:
  "Agree H D env av sk ek so eo v = (Returned True, av') \<longleftrightarrow>
     (\<exists>sigma. Agree_upto_sigma H D env sk ek so eo v = Normal sigma
        \<and> Hash H D env (Some sigma)
              (XX (Agree_operands D env sk ek so eo)) (xxs (Agree_operands D env sk ek so eo))
              (YY (Agree_operands D env sk ek so eo)) (yys (Agree_operands D env sk ek so eo))
              (AA (Agree_operands D env sk ek so eo)) (aas (Agree_operands D env sk ek so eo))
              (BB (Agree_operands D env sk ek so eo)) (bbs (Agree_operands D env sk ek so eo))
              av (AgreedValueLength H D) = Some av')"
  using Agree_upto_sigma_no_Return_True [of H D env sk ek so eo v]
  by (cases "Agree_upto_sigma H D env sk ek so eo v")
    (auto simp add: Agree_def Agree_try_eq split: option.splits exception.splits)

lemma Agree_success:
  assumes "valid_hash H"
    and "challenge_len (GetSubgroupOrder (GetAbstractGroupParameters D)) \<le> DIGESTSIZE H"
    and "encoder_fills (GetAbstractGroupParameters D)"
    and "0 < GetSubgroupOrder (GetAbstractGroupParameters D)"
    and "length av = AgreedValueLength H D"
    and "DecodeElement (GetAbstractGroupParameters D) so False = Some S"
    and "ValidateElement (GetAbstractGroupParameters D) (if v then 3 else 1) S"
    and "DecodeElement (GetAbstractGroupParameters D) eo False = Some E"
    and "ValidateElement (GetAbstractGroupParameters D) 3 E"
  shows "Agree H D env av sk ek so eo v =
     (Returned True,
      spec_agreed_value H (GetAbstractGroupParameters D)
        (spec_sigma D sk ek
           (spec_challenge H (challenge_len (GetSubgroupOrder (GetAbstractGroupParameters D)))
              (spec_X D ek eo) (spec_Y D ek eo) (spec_A D sk so) (spec_B D sk so))
           (spec_challenge H (challenge_len (GetSubgroupOrder (GetAbstractGroupParameters D)))
              (spec_Y D ek eo) (spec_X D ek eo) (spec_A D sk so) (spec_B D sk so))
           S E)
        (spec_X D ek eo) (spec_Y D ek eo) (spec_A D sk so) (spec_B D sk so))"
proof -
  have val: "Agree_validate D so eo v = Normal ()"
    using assms(6-9) by (simp add: Agree_validate_Normal)
  have enc: "length (EncodeElement (GetAbstractGroupParameters D) True g)
      = GetEncodedElementSize (GetAbstractGroupParameters D) True" for g
    using assms(3) by (simp add: encoder_fills_def)
  show ?thesis
    using assms(1,2,5)
    by (simp add: Agree_def Agree_try_def val Agree_challenges_eq
        Agree_sigma_eq [OF assms(4) assms(6) assms(8)]
        Hash_with_sigma enc AgreedValueLength_def
        operands_labelled [OF assms(3)] spec_agreed_value_def)
qed

text \<open>
  A run whose keys pass validation, for whatever challenges lines 212 to 223 produced.
\<close>

lemma Agree_run:
  assumes "valid_hash H" and "encoder_fills (GetAbstractGroupParameters D)"
    and "0 < GetSubgroupOrder (GetAbstractGroupParameters D)"
    and "length av = AgreedValueLength H D"
    and "DecodeElement (GetAbstractGroupParameters D) so False = Some S"
    and "ValidateElement (GetAbstractGroupParameters D) (if v then 3 else 1) S"
    and "DecodeElement (GetAbstractGroupParameters D) eo False = Some E"
    and "ValidateElement (GetAbstractGroupParameters D) 3 E"
    and "Agree_challenges H D env (Agree_operands D env sk ek so eo) = Normal (d, e)"
  shows "Agree H D env av sk ek so eo v =
     (Returned True,
      spec_agreed_value H (GetAbstractGroupParameters D) (spec_sigma D sk ek d e S E)
        (spec_X D ek eo) (spec_Y D ek eo) (spec_A D sk so) (spec_B D sk so))"
proof -
  have val: "Agree_validate D so eo v = Normal ()"
    using assms(5-8) by (simp add: Agree_validate_Normal)
  have enc: "length (EncodeElement (GetAbstractGroupParameters D) True g)
      = GetEncodedElementSize (GetAbstractGroupParameters D) True" for g
    using assms(2) by (simp add: encoder_fills_def)
  show ?thesis
    using assms(1,4)
    by (simp add: Agree_def Agree_try_def val assms(9)
        Agree_sigma_eq [OF assms(3) assms(5) assms(7)]
        Hash_with_sigma enc AgreedValueLength_def
        operands_labelled [OF assms(2)] spec_agreed_value_def)
qed

lemma Agree_sigma_ignores_stale:
  "Agree_sigma D (Agree_operands D env1 sk ek so eo) d e sk' ek'
   = Agree_sigma D (Agree_operands D env2 sk ek so eo) d e sk' ek'"
  by (cases "m_role D")
    (simp_all add: Agree_sigma_def Let_def operands_pointers
      cong: sum.case_cong option.case_cong)

lemma Agree_challenges_ignores_stale:
  assumes "valid_hash H" and "encoder_fills (GetAbstractGroupParameters D)"
    and "challenge_len (GetSubgroupOrder (GetAbstractGroupParameters D)) \<le> DIGESTSIZE H
         \<or> (\<not> NDEBUG env1 \<and> \<not> NDEBUG env2)"
  shows "Agree_challenges H D env1 (Agree_operands D env1 sk ek so eo)
         = Agree_challenges H D env2 (Agree_operands D env2 sk ek so eo)"
proof (cases "challenge_len (GetSubgroupOrder (GetAbstractGroupParameters D)) \<le> DIGESTSIZE H")
  case True
  then show ?thesis
    by (simp add: Agree_challenges_eq [OF assms(1)] operands_labelled [OF assms(2)])
next
  case False
  then show ?thesis using assms(3) by (simp add: Agree_challenges_abort)
qed

lemma Agree_upto_sigma_ignores_stale:
  assumes "valid_hash H" and "encoder_fills (GetAbstractGroupParameters D)"
    and "challenge_len (GetSubgroupOrder (GetAbstractGroupParameters D)) \<le> DIGESTSIZE H
         \<or> (\<not> NDEBUG env1 \<and> \<not> NDEBUG env2)"
  shows "Agree_upto_sigma H D env1 sk ek so eo v = Agree_upto_sigma H D env2 sk ek so eo v"
  by (simp add: Agree_upto_sigma_def Let_def
      Agree_challenges_ignores_stale [OF assms, where sk = sk and ek = ek and so = so and eo = eo]
      Agree_sigma_ignores_stale [of D env1 sk ek so eo _ _ sk ek env2]
      cong: flow.case_cong prod.case_cong)

lemma last_Hash_ignores_stale:
  assumes "valid_hash H" and "encoder_fills (GetAbstractGroupParameters D)"
    and "length av1 = AgreedValueLength H D" and "length av2 = AgreedValueLength H D"
  shows "Hash H D env1 (Some sigma)
           (XX (Agree_operands D env1 sk ek so eo)) (xxs (Agree_operands D env1 sk ek so eo))
           (YY (Agree_operands D env1 sk ek so eo)) (yys (Agree_operands D env1 sk ek so eo))
           (AA (Agree_operands D env1 sk ek so eo)) (aas (Agree_operands D env1 sk ek so eo))
           (BB (Agree_operands D env1 sk ek so eo)) (bbs (Agree_operands D env1 sk ek so eo))
           av1 (AgreedValueLength H D)
         = Hash H D env2 (Some sigma)
           (XX (Agree_operands D env2 sk ek so eo)) (xxs (Agree_operands D env2 sk ek so eo))
           (YY (Agree_operands D env2 sk ek so eo)) (yys (Agree_operands D env2 sk ek so eo))
           (AA (Agree_operands D env2 sk ek so eo)) (aas (Agree_operands D env2 sk ek so eo))
           (BB (Agree_operands D env2 sk ek so eo)) (bbs (Agree_operands D env2 sk ek so eo))
           av2 (AgreedValueLength H D)"
proof -
  have enc: "length (EncodeElement (GetAbstractGroupParameters D) True g)
      = GetEncodedElementSize (GetAbstractGroupParameters D) True" for g
    using assms(2) by (simp add: encoder_fills_def)
  have le: "AgreedValueLength H D \<le> DIGESTSIZE H" by (simp add: AgreedValueLength_def)
  show ?thesis
    by (simp add: Hash_with_sigma [OF assms(1) le assms(3) enc]
        Hash_with_sigma [OF assms(1) le assms(4) enc] operands_labelled [OF assms(2)])
qed

text \<open>
  Where the challenges fit the digest, the result of \<open>Agree\<close> depends neither on the
  build, nor on stale bytes, nor on what \<open>agreedValue\<close> held; and in two builds with
  assertions it depends on neither of the last two, whatever the challenge length.
\<close>

lemma Agree_ignores_stale_bytes:
  assumes "valid_hash H" and "encoder_fills (GetAbstractGroupParameters D)"
    and "challenge_len (GetSubgroupOrder (GetAbstractGroupParameters D)) \<le> DIGESTSIZE H
         \<or> (\<not> NDEBUG env1 \<and> \<not> NDEBUG env2)"
    and "length av1 = AgreedValueLength H D" and "length av2 = AgreedValueLength H D"
  shows "fst (Agree H D env1 av1 sk ek so eo v) = fst (Agree H D env2 av2 sk ek so eo v)"
    and "fst (Agree H D env1 av1 sk ek so eo v) = Returned True \<Longrightarrow>
         snd (Agree H D env1 av1 sk ek so eo v) = snd (Agree H D env2 av2 sk ek so eo v)"
proof -
  note up = Agree_upto_sigma_ignores_stale [OF assms(1,2,3),
      where sk = sk and ek = ek and so = so and eo = eo and v = v]
  note h = last_Hash_ignores_stale [OF assms(1,2,4,5), of env1 _ sk ek so eo env2]
  show "fst (Agree H D env1 av1 sk ek so eo v) = fst (Agree H D env2 av2 sk ek so eo v)"
  proof (cases "Agree_upto_sigma H D env2 sk ek so eo v")
    case (Normal sigma)
    then show ?thesis
      by (simp add: Agree_def Agree_try_eq up h split: option.splits)
  qed (simp_all add: Agree_def Agree_try_eq up split: exception.splits)
  show "snd (Agree H D env1 av1 sk ek so eo v) = snd (Agree H D env2 av2 sk ek so eo v)"
    if ok: "fst (Agree H D env1 av1 sk ek so eo v) = Returned True"
  proof (cases "Agree_upto_sigma H D env2 sk ek so eo v")
    case (Normal sigma)
    then show ?thesis
      using ok by (simp add: Agree_def Agree_try_eq up h split: option.splits)
  next
    case (Return r)
    then show ?thesis
      using ok Agree_upto_sigma_no_Return_True [of H D env2 sk ek so eo v]
      by (simp add: Agree_def Agree_try_eq up)
  next
    case (Throw ex)
    then show ?thesis
      using ok by (simp add: Agree_def Agree_try_eq up split: exception.splits)
  next
    case Abort
    then show ?thesis
      using ok by (simp add: Agree_def Agree_try_eq up)
  qed
qed

subsection \<open>The shared element of honest parties\<close>

lemma exponent_mod:
  assumes "valid_group_parameters G" "0 \<le> m" "0 \<le> n"
  shows "ExponentiateBase G (m * (n mod GetSubgroupOrder G)) = ExponentiateBase G (m * n)"
proof -
  let ?q = "GetSubgroupOrder G"
  have q: "0 < ?q" using assms(1) by (simp add: valid_group_parameters_def)
  have red: "ExponentiateBase G (k mod ?q) = ExponentiateBase G k" if "0 \<le> k" for k
    using assms(1) that by (simp add: valid_group_parameters_def)
  have nm: "0 \<le> n mod ?q" using q by simp
  have "ExponentiateBase G (m * (n mod ?q)) = ExponentiateBase G ((m * (n mod ?q)) mod ?q)"
    using red [of "m * (n mod ?q)"] assms(2) nm by simp
  also have "(m * (n mod ?q)) mod ?q = (m * n) mod ?q"
    by (simp add: mod_mult_right_eq)
  also have "ExponentiateBase G ((m * n) mod ?q) = ExponentiateBase G (m * n)"
    using red [of "m * n"] assms(2,3) by simp
  finally show ?thesis .
qed

lemma shared_element:
  assumes "valid_group_parameters G"
    and "0 \<le> s" "0 \<le> t" "0 \<le> c" "0 \<le> u"
  shows "ExponentiateElement G
           (MultiplyElements G (ExponentiateBase G t) (ExponentiateElement G (ExponentiateBase G s) c))
           (u mod GetSubgroupOrder G)
         = ExponentiateBase G ((t + s * c) * u)"
proof -
  let ?q = "GetSubgroupOrder G"
  have q: "0 < ?q" using assms(1) by (simp add: valid_group_parameters_def)
  have mul: "MultiplyElements G (ExponentiateBase G m) (ExponentiateBase G n)
      = ExponentiateBase G (m + n)" if "0 \<le> m" "0 \<le> n" for m n
    using assms(1) that by (simp add: valid_group_parameters_def)
  have pow: "ExponentiateElement G (ExponentiateBase G m) n = ExponentiateBase G (m * n)"
    if "0 \<le> m" "0 \<le> n" for m n
    using assms(1) that by (simp add: valid_group_parameters_def)
  have um: "0 \<le> u mod ?q" using q by simp
  have sc: "0 \<le> s * c" using assms(2,4) by simp
  have "ExponentiateElement G
           (MultiplyElements G (ExponentiateBase G t) (ExponentiateElement G (ExponentiateBase G s) c))
           (u mod ?q)
        = ExponentiateElement G (ExponentiateBase G (t + s * c)) (u mod ?q)"
    using pow [OF assms(2) assms(4)] mul [OF assms(3) sc] by simp
  also have "\<dots> = ExponentiateBase G ((t + s * c) * (u mod ?q))"
    using pow [of "t + s * c" "u mod ?q"] assms(3) sc um by simp
  also have "\<dots> = ExponentiateBase G ((t + s * c) * u)"
    using exponent_mod [OF assms(1), of "t + s * c" u] assms(3,5) sc by simp
  finally show ?thesis .
qed

lemma Agree_assertion_fails:
  fixes D D' :: "'e FHMQV_Domain"
  assumes "valid_group_parameters G"
    and "\<not> challenge_len (GetSubgroupOrder G) \<le> DIGESTSIZE H" and "\<not> NDEBUG env"
    and "GetAbstractGroupParameters D = G" and "GetAbstractGroupParameters D' = G"
    and "private_key_bytes D' kb" and "private_key_bytes D' ky"
  shows "Agree H D env av sk ek (public_key_of D' kb) (public_key_of D' ky) v
         = (AssertionFailed, av)"
proof -
  let ?b = "Integer_Decode kb (StaticPrivateKeyLength D')"
  let ?y = "Integer_Decode ky (StaticPrivateKeyLength D')"
  let ?g = "ExponentiateBase G"
  have dec: "DecodeElement G (EncodeElement G True (?g m)) False = Some (?g m)"
    if "1 \<le> m" "m \<le> GetMaxExponent G" for m
    using assms(1) that by (simp add: valid_group_parameters_def)
  have ok: "ValidateElement G (if v then 3 else 1) (?g m) \<and> ValidateElement G 3 (?g m)"
    if "1 \<le> m" "m \<le> GetMaxExponent G" for m
    using assms(1) that by (simp add: valid_group_parameters_def)
  have rb: "1 \<le> ?b" "?b \<le> GetMaxExponent G"
    using assms(6) by (simp_all add: private_key_bytes_def assms(5))
  have ry: "1 \<le> ?y" "?y \<le> GetMaxExponent G"
    using assms(7) by (simp_all add: private_key_bytes_def assms(5))
  have "Agree_validate D (public_key_of D' kb) (public_key_of D' ky) v = Normal ()"
    using dec [OF rb] dec [OF ry] ok [OF rb] ok [OF ry]
    by (simp add: Agree_validate_Normal public_key_of_def assms(4,5))
  moreover have "Agree_challenges H D env L = Abort" for L
    using assms(2,3) by (simp add: Agree_challenges_abort assms(4))
  ultimately have "Agree_upto_sigma H D env sk ek (public_key_of D' kb) (public_key_of D' ky) v = Abort"
    by (simp add: Agree_upto_sigma_def Let_def)
  then show ?thesis by (simp add: Agree_def Agree_try_eq)
qed

text \<open>
  Mutual agreement where the challenges fit the digest. The Client holds the private
  keys \<open>ka\<close> and \<open>kx\<close> with the exponents \<open>a\<close> and \<open>x\<close>, the Server \<open>kb\<close> and \<open>ky\<close>
  with \<open>b\<close> and \<open>y\<close>; \<open>A\<close>, \<open>X\<close>, \<open>B\<close>, \<open>Y\<close> are their public keys. Both calls
  return true, whatever the build, the stale bytes and the validation flags, and leave
  the hash of the shared element \<open>g ^ ((x + d a) (y + e b))\<close> and of \<open>X\<close>, \<open>Y\<close>, \<open>A\<close>,
  \<open>B\<close>.
\<close>

lemma mutual_agreement:
  fixes G :: "'e DL_GroupParameters"
  assumes "valid_group_parameters G" and "valid_hash H"
    and "challenge_len (GetSubgroupOrder G) \<le> DIGESTSIZE H"
    and "Dc = new_FHMQV_Domain G True" and "Ds = new_FHMQV_Domain G False"
    and "private_key_bytes Dc ka" and "private_key_bytes Dc kx"
    and "private_key_bytes Ds kb" and "private_key_bytes Ds ky"
    and "A = public_key_of Dc ka" and "X = public_key_of Dc kx"
    and "B = public_key_of Ds kb" and "Y = public_key_of Ds ky"
    and "length avc = AgreedValueLength H Dc" and "length avs = AgreedValueLength H Ds"
    and "a = Integer_Decode ka (StaticPrivateKeyLength Dc)"
    and "x = Integer_Decode kx (StaticPrivateKeyLength Dc)"
    and "b = Integer_Decode kb (StaticPrivateKeyLength Ds)"
    and "y = Integer_Decode ky (StaticPrivateKeyLength Ds)"
    and "d = spec_challenge H (challenge_len (GetSubgroupOrder G)) X Y A B"
    and "e = spec_challenge H (challenge_len (GetSubgroupOrder G)) Y X A B"
    and "sigma = ExponentiateBase G ((x + d * a) * (y + e * b))"
  shows "Agree H Dc envc avc ka (kx @ X) B Y vc
           = (Returned True, spec_agreed_value H G sigma X Y A B)
       \<and> Agree H Ds envs avs kb (ky @ Y) A X vs
           = (Returned True, spec_agreed_value H G sigma X Y A B)"
proof -
  let ?q = "GetSubgroupOrder G"
  let ?n = "ByteCount ?q"
  let ?g = "ExponentiateBase G"
  have q: "0 < ?q" and fills: "encoder_fills G"
    using assms(1) by (simp_all add: valid_group_parameters_def)
  have dec: "DecodeElement G (EncodeElement G True (?g m)) False = Some (?g m)"
    if "1 \<le> m" "m \<le> GetMaxExponent G" for m
    using assms(1) that by (simp add: valid_group_parameters_def)
  have ok: "ValidateElement G (if v then 3 else 1) (?g m) \<and> ValidateElement G 3 (?g m)"
    if "1 \<le> m" "m \<le> GetMaxExponent G" for m v
    using assms(1) that by (simp add: valid_group_parameters_def)
  have len: "length (EncodeElement G True g) = GetEncodedElementSize G True" for g
    using fills by (simp add: encoder_fills_def)
  have GDc: "GetAbstractGroupParameters Dc = G" and GDs: "GetAbstractGroupParameters Ds = G"
    by (simp_all add: assms(4,5) new_FHMQV_Domain_simps)
  have nDc: "StaticPrivateKeyLength Dc = ?n" and nDs: "StaticPrivateKeyLength Ds = ?n"
    by (simp_all add: assms(4,5) new_FHMQV_Domain_simps)
  have ra: "1 \<le> a" "a \<le> GetMaxExponent G" "length ka = ?n"
    using assms(6) by (simp_all add: private_key_bytes_def assms(16) GDc nDc)
  have rx: "1 \<le> x" "x \<le> GetMaxExponent G" "length kx = ?n"
    using assms(7) by (simp_all add: private_key_bytes_def assms(17) GDc nDc)
  have rb: "1 \<le> b" "b \<le> GetMaxExponent G" "length kb = ?n"
    using assms(8) by (simp_all add: private_key_bytes_def assms(18) GDs nDs)
  have ry: "1 \<le> y" "y \<le> GetMaxExponent G" "length ky = ?n"
    using assms(9) by (simp_all add: private_key_bytes_def assms(19) GDs nDs)
  have A: "A = EncodeElement G True (?g a)" and X: "X = EncodeElement G True (?g x)"
    by (simp_all add: assms(10,11,16,17) public_key_of_def GDc)
  have B: "B = EncodeElement G True (?g b)" and Y: "Y = EncodeElement G True (?g y)"
    by (simp_all add: assms(12,13,18,19) public_key_of_def GDs)
  have d0: "0 \<le> d" and e0: "0 \<le> e"
    by (simp_all add: assms(20,21) spec_challenge_def Integer_Decode_nonneg)
  have opsC:
    "spec_X Dc (kx @ X) Y = X" "spec_Y Dc (kx @ X) Y = Y"
    "spec_A Dc ka B = A" "spec_B Dc ka B = B"
    using rx(3)
    by (simp_all add: spec_X_def spec_Y_def spec_A_def spec_B_def assms(4) new_FHMQV_Domain_simps
        X Y B len assms(10) [unfolded assms(4)])
  have opsS:
    "spec_X Ds (ky @ Y) X = X" "spec_Y Ds (ky @ Y) X = Y"
    "spec_A Ds kb A = A" "spec_B Ds kb A = B"
    using ry(3)
    by (simp_all add: spec_X_def spec_Y_def spec_A_def spec_B_def assms(5) new_FHMQV_Domain_simps
        X Y A len assms(12) [unfolded assms(5)])
  have sigC: "spec_sigma Dc ka (kx @ X) d e (?g b) (?g y) = sigma"
  proof -
    have "spec_sigma Dc ka (kx @ X) d e (?g b) (?g y)
        = ExponentiateElement G (MultiplyElements G (?g y) (ExponentiateElement G (?g b) e))
            ((x + d * a) mod ?q)"
      using rx(3)
      by (simp add: spec_sigma_def Let_def assms(4) new_FHMQV_Domain_simps
          Integer_Decode_append assms(16,17) [unfolded assms(4), simplified new_FHMQV_Domain_simps])
    also have "\<dots> = ?g ((y + b * e) * (x + d * a))"
      using shared_element [OF assms(1), of b y e "x + d * a"] ra rx rb ry d0 e0 by simp
    finally show ?thesis by (simp add: assms(22) mult.commute)
  qed
  have sigS: "spec_sigma Ds kb (ky @ Y) d e (?g a) (?g x) = sigma"
  proof -
    have "spec_sigma Ds kb (ky @ Y) d e (?g a) (?g x)
        = ExponentiateElement G (MultiplyElements G (?g x) (ExponentiateElement G (?g a) d))
            ((y + e * b) mod ?q)"
      using ry(3)
      by (simp add: spec_sigma_def Let_def assms(5) new_FHMQV_Domain_simps
          Integer_Decode_append assms(18,19) [unfolded assms(5), simplified new_FHMQV_Domain_simps])
    also have "\<dots> = ?g ((x + a * d) * (y + e * b))"
      using shared_element [OF assms(1), of a x d "y + e * b"] ra rx rb ry d0 e0 by simp
    finally show ?thesis by (simp add: assms(22) mult.commute)
  qed
  have client: "Agree H Dc envc avc ka (kx @ X) B Y vc
      = (Returned True, spec_agreed_value H G sigma X Y A B)"
    using Agree_success [where H = H and D = Dc and env = envc and av = avc and so = B and S = "?g b"
        and v = vc and eo = Y and E = "?g y" and sk = ka and ek = "kx @ X"]
      assms(2,3,14) q fills dec [of b] dec [of y] ok [of b vc] ok [of y vc] rb ry
    by (simp add: GDc B [symmetric] Y [symmetric] opsC sigC
        assms(20) [symmetric] assms(21) [symmetric])
  have server: "Agree H Ds envs avs kb (ky @ Y) A X vs
      = (Returned True, spec_agreed_value H G sigma X Y A B)"
    using Agree_success [where H = H and D = Ds and env = envs and av = avs and so = A and S = "?g a"
        and v = vs and eo = X and E = "?g x" and sk = kb and ek = "ky @ Y"]
      assms(2,3,15) q fills dec [of a] dec [of x] ok [of a vs] ok [of x vs] ra rx
    by (simp add: GDs A [symmetric] X [symmetric] opsS sigS
        assms(20) [symmetric] assms(21) [symmetric])
  show ?thesis using client server by simp
qed

subsection \<open>Key generation\<close>

lemma GenerateEphemeralPrivateKey_eq:
  assumes "encoder_fills (GetAbstractGroupParameters D)"
    and "length privateKey = EphemeralPrivateKeyLength D"
  shows "GenerateEphemeralPrivateKey D rng privateKey =
     (snd (Integer_random rng 1 (GetMaxExponent (GetAbstractGroupParameters D))),
      Integer_Encode (fst (Integer_random rng 1 (GetMaxExponent (GetAbstractGroupParameters D))))
        (StaticPrivateKeyLength D)
      @ EncodeElement (GetAbstractGroupParameters D) True
          (ExponentiateBase (GetAbstractGroupParameters D)
             (fst (Integer_random rng 1 (GetMaxExponent (GetAbstractGroupParameters D))))))"
proof -
  have fill: "length (EncodeElement (GetAbstractGroupParameters D) True g) = StaticPublicKeyLength D" for g
    using assms(1) by (simp add: encoder_fills_def StaticPublicKeyLength_def)
  show ?thesis
    using assms(2)
    by (simp add: GenerateEphemeralPrivateKey_def Let_def split_beta write_bytes_def
        length_Integer_Encode fill EphemeralPrivateKeyLength_def)
qed

subsection \<open>The small instance\<close>

lemma toy_hash_valid: "valid_hash toy_hash"
  by (simp add: valid_hash_def toy_hash_def)

lemma pow2_mod23_period: "(2::int) ^ (k mod 11) mod 23 = 2 ^ k mod 23"
proof -
  have "(2::int) ^ k = (2 ^ 11) ^ (k div 11) * 2 ^ (k mod 11)"
    by (metis div_mult_mod_eq mult.commute power_add power_mult)
  then have "(2::int) ^ k mod 23 = ((2 ^ 11) ^ (k div 11) mod 23) * (2 ^ (k mod 11) mod 23) mod 23"
    by (simp add: mod_mult_eq)
  moreover have "((2::int) ^ 11) ^ (k div 11) mod 23 = 1"
  proof -
    have "((2::int) ^ 11) ^ (k div 11) mod 23 = (2 ^ 11 mod 23) ^ (k div 11) mod 23"
      by (simp only: power_mod)
    then show ?thesis by simp
  qed
  ultimately show ?thesis by simp
qed

lemma toy_valid_elements:
  assumes "1 \<le> m" "m \<le> (10::int)"
  shows "1 < (2::int) ^ nat m mod 23 \<and> (2::int) ^ nat m mod 23 < 23
         \<and> ((2::int) ^ nat m mod 23) ^ 11 mod 23 = 1"
proof -
  from assms have "m = 1 \<or> m = 2 \<or> m = 3 \<or> m = 4 \<or> m = 5 \<or> m = 6 \<or> m = 7 \<or> m = 8 \<or> m = 9 \<or> m = 10"
    by arith
  then show ?thesis by (elim disjE) simp_all
qed

lemma checksum_zeros:
  "foldl (\<lambda>acc c. 3 * acc + c) acc (replicate n (0::byte)) = acc * 3 ^ n"
  by (induction n arbitrary: acc) (simp_all add: algebra_simps)

lemma toy_group_valid: "valid_group_parameters toy_group"
  unfolding valid_group_parameters_def
proof (intro conjI allI impI)
  show "0 < GetSubgroupOrder toy_group" by (simp add: toy_group_def)
next
  show "encoder_fills toy_group" by (simp add: encoder_fills_def toy_group_def)
next
  fix m n :: int assume "0 \<le> m" "0 \<le> n"
  then show "MultiplyElements toy_group (ExponentiateBase toy_group m) (ExponentiateBase toy_group n)
      = ExponentiateBase toy_group (m + n)"
    by (simp add: toy_group_def nat_add_distrib power_add mod_mult_eq)
next
  fix m n :: int assume "0 \<le> m" "0 \<le> n"
  then show "ExponentiateElement toy_group (ExponentiateBase toy_group m) n = ExponentiateBase toy_group (m * n)"
    by (simp add: toy_group_def nat_mult_distrib power_mult power_mod)
next
  fix m :: int assume "0 \<le> m"
  then have "nat (m mod 11) = nat m mod 11" by (simp add: nat_mod_distrib)
  then show "ExponentiateBase toy_group (m mod GetSubgroupOrder toy_group) = ExponentiateBase toy_group m"
    by (simp add: toy_group_def pow2_mod23_period)
next
  fix m :: int
  have "0 \<le> (2::int) ^ nat m mod 23" "(2::int) ^ nat m mod 23 < 23" by simp_all
  then have "uint (word_of_int (2 ^ nat m mod 23) :: byte) = 2 ^ nat m mod 23"
    by (simp add: uint_word_of_int take_bit_int_eq_self)
  then show "DecodeElement toy_group (EncodeElement toy_group True (ExponentiateBase toy_group m)) False
      = Some (ExponentiateBase toy_group m)"
    by (simp add: toy_group_def)
next
  fix m :: int assume "1 \<le> m" "m \<le> GetMaxExponent toy_group"
  then show "ValidateElement toy_group 1 (ExponentiateBase toy_group m)"
    using toy_valid_elements [of m] by (simp add: toy_group_def)
next
  fix m :: int assume "1 \<le> m" "m \<le> GetMaxExponent toy_group"
  then show "ValidateElement toy_group 3 (ExponentiateBase toy_group m)"
    using toy_valid_elements [of m] by (simp add: toy_group_def)
qed

lemma toy_lengths:
  "StaticPrivateKeyLength toy_client = 1" "StaticPrivateKeyLength toy_server = 1"
  "StaticPublicKeyLength toy_client = 1" "StaticPublicKeyLength toy_server = 1"
  "EphemeralPublicKeyLength toy_client = 1" "EphemeralPublicKeyLength toy_server = 1"
  "AgreedValueLength toy_hash D = 2"
  "challenge_len (GetSubgroupOrder toy_group) = 1"
  by (simp_all add: toy_client_def toy_server_def new_FHMQV_Domain_simps toy_group_def
      toy_hash_def ByteCount_def BitCount_def bit_length_11 AgreedValueLength_def
      challenge_len_def)

lemma toy_keys:
  "private_key_bytes toy_client [3]" "private_key_bytes toy_client [5]"
  "private_key_bytes toy_server [7]" "private_key_bytes toy_server [4]"
  "public_key_of toy_client [3] = [8]" "public_key_of toy_client [5] = [9]"
  "public_key_of toy_server [7] = [13]" "public_key_of toy_server [4] = [16]"
  by (simp_all add: private_key_bytes_def public_key_of_def Integer_Decode_def
      toy_client_def toy_server_def new_FHMQV_Domain_simps toy_group_def ByteCount_11)

lemma toy_scalars:
  "Integer_Decode [3] (StaticPrivateKeyLength toy_client) = 3"
  "Integer_Decode [5] (StaticPrivateKeyLength toy_client) = 5"
  "Integer_Decode [7] (StaticPrivateKeyLength toy_server) = 7"
  "Integer_Decode [4] (StaticPrivateKeyLength toy_server) = 4"
  by (simp_all add: toy_lengths Integer_Decode_def)

lemma toy_challenges:
  "spec_challenge toy_hash (challenge_len (GetSubgroupOrder toy_group)) [9] [16] [8] [13] = 223"
  "spec_challenge toy_hash (challenge_len (GetSubgroupOrder toy_group)) [16] [9] [8] [13] = 93"
  by (simp_all add: toy_lengths spec_challenge_def toy_hash_def Integer_Decode_def)

lemma toy_ExponentiateBase: "ExponentiateBase toy_group n = 2 ^ nat n mod 23"
  by (simp add: toy_group_def)

lemma toy_shared_element: "ExponentiateBase toy_group ((5 + 223 * 3) * (4 + 93 * 7)) = 13"
proof -
  have "(5 + 223 * 3) * (4 + 93 * 7) = (441470::int)" by simp
  moreover have "ExponentiateBase toy_group 441470 = 2 ^ (nat 441470 mod 11) mod 23"
    by (simp only: toy_ExponentiateBase pow2_mod23_period)
  moreover have "nat 441470 mod 11 = 7" by simp
  moreover have "(2::int) ^ 7 mod 23 = 13" by simp
  ultimately show ?thesis by (simp only:)
qed

lemma toy_mutual_agreement:
  "Agree toy_hash toy_client toy_env [0, 0] [3] [5, 9] [13] [16] True = (Returned True, [106, 5])
   \<and> Agree toy_hash toy_server toy_env [1, 1] [7] [4, 16] [8] [9] False = (Returned True, [106, 5])"
proof -
  have len: "challenge_len (GetSubgroupOrder toy_group) \<le> DIGESTSIZE toy_hash"
    by (simp add: toy_lengths toy_hash_def)
  have av: "length [0, 0 :: byte] = AgreedValueLength toy_hash toy_client"
    "length [1, 1 :: byte] = AgreedValueLength toy_hash toy_server"
    by (simp_all add: toy_lengths)
  have K: "spec_agreed_value toy_hash toy_group 13 [9] [16] [8] [13] = [106, 5]"
    by (simp add: spec_agreed_value_def toy_hash_def toy_group_def)
  have "Agree toy_hash toy_client toy_env [0, 0] [3] ([5] @ [9]) [13] [16] True
          = (Returned True, spec_agreed_value toy_hash toy_group 13 [9] [16] [8] [13])
      \<and> Agree toy_hash toy_server toy_env [1, 1] [7] ([4] @ [16]) [8] [9] False
          = (Returned True, spec_agreed_value toy_hash toy_group 13 [9] [16] [8] [13])"
    by (rule mutual_agreement [OF toy_group_valid toy_hash_valid len toy_client_def
          toy_server_def toy_keys(1-4) toy_keys(5-8) [symmetric] av toy_scalars [symmetric]
          toy_challenges [symmetric] toy_shared_element [symmetric]])
  then show ?thesis by (simp add: K)
qed

lemmas toy_defs = toy_client_def toy_server_def new_FHMQV_Domain_def toy_group_def toy_hash_def
  toy_env_def debug_build_def release_build_def
  GetAbstractGroupParameters_def StaticPrivateKeyLength_def StaticPublicKeyLength_def
  EphemeralPublicKeyLength_def AgreedValueLength_def ByteCount_11 Integer_Decode_def
  SecByteBlock_def write_bytes_def Update_def TruncatedFinal_def
  challenge_len_def BitCount_def bit_length_11

lemmas Agree_defs = Agree_def Agree_try_def Agree_operands_def Agree_validate_def
  Agree_challenges_def Agree_sigma_def Hash_def Integer_mod_def Let_def

lemma toy_client_run:
  "Agree toy_hash toy_client toy_env [0, 0] [3] [5, 9] [13] [16] v = (Returned True, [106, 5])"
  by (simp add: Agree_defs toy_defs)

lemma toy_client_rejects_static:
  "Agree toy_hash toy_client toy_env [0, 0] [3] [5, 9] [5] [16] True = (Returned False, [0, 0])"
  by (simp add: Agree_defs toy_defs)

lemma toy_client_accepts_unvalidated_static:
  "Agree toy_hash toy_client toy_env [0, 0] [3] [5, 9] [5] [16] False = (Returned True, [153, 5])"
  by (simp add: Agree_defs toy_defs)

lemma toy_client_rejects_ephemeral:
  "Agree toy_hash toy_client toy_env [0, 0] [3] [5, 9] [13] [5] False = (Returned False, [0, 0])"
  by (simp add: Agree_defs toy_defs)

lemma toy_client_bad_encoding:
  "Agree toy_hash toy_client toy_env [0, 0] [3] [5, 9] [13] [] False = (Returned False, [0, 0])"
  by (simp add: Agree_defs toy_defs)

subsection \<open>The large instance\<close>

lemma additive_group_valid:
  assumes "0 < q"
  shows "valid_group_parameters (additive_group q)"
  unfolding valid_group_parameters_def
proof (intro conjI allI impI)
  show "0 < GetSubgroupOrder (additive_group q)" using assms by (simp add: additive_group_def)
next
  show "encoder_fills (additive_group q)"
    by (simp add: encoder_fills_def additive_group_def length_Integer_Encode)
next
  fix m n :: int
  show "MultiplyElements (additive_group q) (ExponentiateBase (additive_group q) m)
      (ExponentiateBase (additive_group q) n) = ExponentiateBase (additive_group q) (m + n)"
    by (simp add: additive_group_def mod_add_eq)
next
  fix m n :: int
  show "ExponentiateElement (additive_group q) (ExponentiateBase (additive_group q) m) n
      = ExponentiateBase (additive_group q) (m * n)"
    by (simp add: additive_group_def mod_mult_left_eq)
next
  fix m :: int
  show "ExponentiateBase (additive_group q) (m mod GetSubgroupOrder (additive_group q))
      = ExponentiateBase (additive_group q) m"
    by (simp add: additive_group_def)
next
  fix m :: int
  have r: "0 \<le> m mod q" "m mod q < q" using assms by simp_all
  have "m mod q < 256 ^ ByteCount q"
    using r(2) ByteCount_bound [of q] assms by linarith
  then have "m mod q mod 256 ^ ByteCount q = m mod q"
    using r(1) by simp
  then show "DecodeElement (additive_group q)
      (EncodeElement (additive_group q) True (ExponentiateBase (additive_group q) m)) False
      = Some (ExponentiateBase (additive_group q) m)"
    by (simp add: additive_group_def length_Integer_Encode Integer_Decode_Encode)
next
  fix m :: int assume "1 \<le> m" "m \<le> GetMaxExponent (additive_group q)"
  then show "ValidateElement (additive_group q) 1 (ExponentiateBase (additive_group q) m)"
    by (simp add: additive_group_def)
next
  fix m :: int assume "1 \<le> m" "m \<le> GetMaxExponent (additive_group q)"
  then show "ValidateElement (additive_group q) 3 (ExponentiateBase (additive_group q) m)"
    by (simp add: additive_group_def)
qed

lemma hash32_valid: "valid_hash hash32"
  by (simp add: valid_hash_def hash32_def toy_hash_def)

lemma P521_facts:
  "GetAbstractGroupParameters P521_client = additive_group order_P521"
  "GetAbstractGroupParameters P521_server = additive_group order_P521"
  "StaticPrivateKeyLength P521_client = 66" "StaticPrivateKeyLength P521_server = 66"
  "challenge_len (GetSubgroupOrder (additive_group order_P521)) = 33"
  "GetMaxExponent (additive_group order_P521) = order_P521 - 1"
  by (simp_all add: P521_client_def P521_server_def new_FHMQV_Domain_simps additive_group_def
      ByteCount_def BitCount_def challenge_len_def order_P521_def bit_length_P521)

lemma P521_keys:
  "private_key_bytes P521_client (Integer_Encode 3 66)"
  "private_key_bytes P521_client (Integer_Encode 5 66)"
  "private_key_bytes P521_server (Integer_Encode 7 66)"
  "private_key_bytes P521_server (Integer_Encode 4 66)"
  by (simp_all add: private_key_bytes_def P521_facts length_Integer_Encode Integer_Decode_Encode)
    (simp_all add: order_P521_def)

lemma P521_key_bytes:
  "Integer_Encode 3 66 = replicate 65 0 @ [3]"
  "Integer_Encode 5 66 = replicate 65 0 @ [5]"
  "Integer_Encode 7 66 = replicate 65 0 @ [7]"
  "Integer_Encode 4 66 = replicate 65 0 @ [4]"
  using Integer_Encode_small [of 3 1 65] Integer_Encode_small [of 5 1 65]
    Integer_Encode_small [of 7 1 65] Integer_Encode_small [of 4 1 65]
  by (simp_all add: Integer_Encode_def)

lemma P521_public_keys:
  "public_key_of P521_client (Integer_Encode 3 66) = Integer_Encode 3 66"
  "public_key_of P521_client (Integer_Encode 5 66) = Integer_Encode 5 66"
  "public_key_of P521_server (Integer_Encode 7 66) = Integer_Encode 7 66"
  "public_key_of P521_server (Integer_Encode 4 66) = Integer_Encode 4 66"
  by (simp_all add: public_key_of_def P521_facts Integer_Decode_Encode additive_group_def
      ByteCount_def BitCount_def order_P521_def bit_length_P521)

lemma hash32_challenge_digests:
  "digest_of hash32 (Integer_Encode 5 66 @ Integer_Encode 4 66 @ Integer_Encode 3 66 @ Integer_Encode 7 66)
     = replicate 30 0 @ [10, 8]"
  "digest_of hash32 (Integer_Encode 4 66 @ Integer_Encode 5 66 @ Integer_Encode 3 66 @ Integer_Encode 7 66)
     = replicate 30 0 @ [130, 8]"
  by (simp_all add: hash32_def toy_hash_def P521_key_bytes checksum_zeros)

lemma P521_hash_facts:
  "DIGESTSIZE hash32 = 32" "AgreedValueLength hash32 D = 32"
  "\<not> challenge_len (GetSubgroupOrder (additive_group order_P521)) \<le> DIGESTSIZE hash32"
  "NDEBUG (release_build s)" "\<not> NDEBUG (debug_build s)"
  "StaticPublicKeyLength P521_client = 66" "StaticPublicKeyLength P521_server = 66"
  "EphemeralPublicKeyLength P521_client = 66" "EphemeralPublicKeyLength P521_server = 66"
  "m_role P521_client = RoleClient" "m_role P521_server = RoleServer"
proof -
  show "\<not> challenge_len (GetSubgroupOrder (additive_group order_P521)) \<le> DIGESTSIZE hash32"
    by (simp add: P521_facts hash32_def)
qed (simp_all add: hash32_def AgreedValueLength_def release_build_def debug_build_def
      P521_client_def P521_server_def new_FHMQV_Domain_simps additive_group_def
      ByteCount_def BitCount_def order_P521_def bit_length_P521)

lemma P521_operands:
  "spec_X P521_client (Integer_Encode 5 66 @ Integer_Encode 5 66) (Integer_Encode 4 66) = Integer_Encode 5 66"
  "spec_Y P521_client (Integer_Encode 5 66 @ Integer_Encode 5 66) (Integer_Encode 4 66) = Integer_Encode 4 66"
  "spec_A P521_client (Integer_Encode 3 66) (Integer_Encode 7 66) = Integer_Encode 3 66"
  "spec_B P521_client (Integer_Encode 3 66) (Integer_Encode 7 66) = Integer_Encode 7 66"
  "spec_X P521_server (Integer_Encode 4 66 @ Integer_Encode 4 66) (Integer_Encode 5 66) = Integer_Encode 5 66"
  "spec_Y P521_server (Integer_Encode 4 66 @ Integer_Encode 4 66) (Integer_Encode 5 66) = Integer_Encode 4 66"
  "spec_A P521_server (Integer_Encode 7 66) (Integer_Encode 3 66) = Integer_Encode 3 66"
  "spec_B P521_server (Integer_Encode 7 66) (Integer_Encode 3 66) = Integer_Encode 7 66"
  by (simp_all add: spec_X_def spec_Y_def spec_A_def spec_B_def P521_facts P521_hash_facts
      P521_public_keys length_Integer_Encode)

lemma P521_challenges:
  fixes D :: "int FHMQV_Domain"
  assumes "GetAbstractGroupParameters D = additive_group order_P521"
    and "spec_X D ek eo = Integer_Encode 5 66" and "spec_Y D ek eo = Integer_Encode 4 66"
    and "spec_A D sk so = Integer_Encode 3 66" and "spec_B D sk so = Integer_Encode 7 66"
  shows "Agree_challenges hash32 D (release_build s) (Agree_operands D (release_build s) sk ek so eo)
         = Normal (657408 + uint s, 8521728 + uint s)"
proof -
  have fills: "encoder_fills (GetAbstractGroupParameters D)"
    by (simp add: assms(1) encoder_fills_def additive_group_def length_Integer_Encode)
  have dec: "Integer_Decode ((replicate 30 0 @ [c1, c2]) @ [s]) (30 + 3)
      = (uint c1 * 256 + uint c2) * 256 + uint s" for c1 c2 :: byte
    unfolding append_assoc Integer_Decode_zeros by (simp add: Integer_Decode_def)
  show ?thesis
    using dec [of 10 8] dec [of 130 8]
    by (simp add: Agree_challenges_beyond_digest [OF hash32_valid P521_hash_facts(4)]
        assms(1) P521_hash_facts P521_facts operands_labelled [OF fills] assms(2-5)
        hash32_challenge_digests SecByteBlock_release)
qed

lemma P521_decode:
  "DecodeElement (additive_group order_P521) (Integer_Encode 7 66) False = Some 7"
  "DecodeElement (additive_group order_P521) (Integer_Encode 4 66) False = Some 4"
  "DecodeElement (additive_group order_P521) (Integer_Encode 3 66) False = Some 3"
  "DecodeElement (additive_group order_P521) (Integer_Encode 5 66) False = Some 5"
  "ValidateElement (additive_group order_P521) l 7" "ValidateElement (additive_group order_P521) l 4"
  "ValidateElement (additive_group order_P521) l 3" "ValidateElement (additive_group order_P521) l 5"
  by (simp_all add: additive_group_def length_Integer_Encode Integer_Decode_Encode
      ByteCount_def BitCount_def order_P521_def bit_length_P521)

lemma P521_scalars:
  "Integer_Decode (Integer_Encode 3 66) 66 = 3" "Integer_Decode (Integer_Encode 7 66) 66 = 7"
  "Integer_Decode (Integer_Encode 5 66 @ Integer_Encode 5 66) 66 = 5"
  "Integer_Decode (Integer_Encode 4 66 @ Integer_Encode 4 66) 66 = 4"
  by (simp_all add: Integer_Decode_append length_Integer_Encode Integer_Decode_Encode)

lemma P521_sigma:
  "spec_sigma P521_client (Integer_Encode 3 66) (Integer_Encode 5 66 @ Integer_Encode 5 66)
     (657408 + uint (170::byte)) (8521728 + uint (170::byte)) 7 4 = 117680371661310"
  "spec_sigma P521_client (Integer_Encode 3 66) (Integer_Encode 5 66 @ Integer_Encode 5 66)
     (657408 + uint (0::byte)) (8521728 + uint (0::byte)) 7 4 = 117647601530900"
  "spec_sigma P521_server (Integer_Encode 7 66) (Integer_Encode 4 66 @ Integer_Encode 4 66)
     (657408 + uint (0::byte)) (8521728 + uint (0::byte)) 3 5 = 117647601530900"
  by (simp_all add: spec_sigma_def Let_def P521_facts P521_hash_facts P521_scalars)
    (simp_all add: additive_group_def order_P521_def)

lemma P521_agreed_values:
  "spec_agreed_value hash32 (additive_group order_P521) 117680371661310
     (Integer_Encode 5 66) (Integer_Encode 4 66) (Integer_Encode 3 66) (Integer_Encode 7 66)
   = replicate 30 0 @ [178, 74]"
  "spec_agreed_value hash32 (additive_group order_P521) 117647601530900
     (Integer_Encode 5 66) (Integer_Encode 4 66) (Integer_Encode 3 66) (Integer_Encode 7 66)
   = replicate 30 0 @ [175, 74]"
proof -
  have n: "ByteCount order_P521 = 66"
    by (simp add: ByteCount_def BitCount_def order_P521_def bit_length_P521)
  have enc: "Integer_Encode 117680371661310 66 = replicate 60 0 @ [107, 7, 152, 191, 249, 254]"
    "Integer_Encode 117647601530900 66 = replicate 60 0 @ [106, 255, 247, 127, 120, 20]"
  proof -
    have six: "Integer_Encode v 6 = [word_of_int (v div 256 ^ 5), word_of_int (v div 256 ^ 4),
        word_of_int (v div 256 ^ 3), word_of_int (v div 256 ^ 2), word_of_int (v div 256),
        word_of_int v]" for v
      by (simp add: eval_nat_numeral Integer_Encode_Suc Integer_Encode_def)
    show "Integer_Encode 117680371661310 66 = replicate 60 0 @ [107, 7, 152, 191, 249, 254]"
      using Integer_Encode_small [of 117680371661310 6 60] by (simp add: six)
    show "Integer_Encode 117647601530900 66 = replicate 60 0 @ [106, 255, 247, 127, 120, 20]"
      using Integer_Encode_small [of 117647601530900 6 60] by (simp add: six)
  qed
  show "spec_agreed_value hash32 (additive_group order_P521) 117680371661310
     (Integer_Encode 5 66) (Integer_Encode 4 66) (Integer_Encode 3 66) (Integer_Encode 7 66)
   = replicate 30 0 @ [178, 74]"
    by (simp add: spec_agreed_value_def additive_group_def n enc hash32_def toy_hash_def
        P521_key_bytes checksum_zeros)
  show "spec_agreed_value hash32 (additive_group order_P521) 117647601530900
     (Integer_Encode 5 66) (Integer_Encode 4 66) (Integer_Encode 3 66) (Integer_Encode 7 66)
   = replicate 30 0 @ [175, 74]"
    by (simp add: spec_agreed_value_def additive_group_def n enc hash32_def toy_hash_def
        P521_key_bytes checksum_zeros)
qed

lemma P521_release_runs:
  "Agree hash32 P521_client (release_build 170) (replicate 32 0) (Integer_Encode 3 66)
     (Integer_Encode 5 66 @ Integer_Encode 5 66) (Integer_Encode 7 66) (Integer_Encode 4 66) v
   = (Returned True, replicate 30 0 @ [178, 74])"
  "Agree hash32 P521_client (release_build 0) (replicate 32 0) (Integer_Encode 3 66)
     (Integer_Encode 5 66 @ Integer_Encode 5 66) (Integer_Encode 7 66) (Integer_Encode 4 66) v
   = (Returned True, replicate 30 0 @ [175, 74])"
  "Agree hash32 P521_server (release_build 0) (replicate 32 0) (Integer_Encode 7 66)
     (Integer_Encode 4 66 @ Integer_Encode 4 66) (Integer_Encode 3 66) (Integer_Encode 5 66) v
   = (Returned True, replicate 30 0 @ [175, 74])"
proof -
  have fills: "encoder_fills (additive_group order_P521)"
    by (simp add: encoder_fills_def additive_group_def length_Integer_Encode)
  have q: "0 < GetSubgroupOrder (additive_group order_P521)"
    by (simp add: additive_group_def order_P521_def)
  have av: "length (replicate 32 (0::byte)) = AgreedValueLength hash32 D" for D :: "int FHMQV_Domain"
    by (simp add: P521_hash_facts)
  note client = Agree_run [where D = P521_client and H = hash32, unfolded P521_facts,
      OF hash32_valid fills q av P521_decode(1) P521_decode(5) P521_decode(2) P521_decode(6)
        P521_challenges [OF P521_facts(1) P521_operands(1-4)]]
  note server = Agree_run [where D = P521_server and H = hash32, unfolded P521_facts,
      OF hash32_valid fills q av P521_decode(3) P521_decode(7) P521_decode(4) P521_decode(8)
        P521_challenges [OF P521_facts(2) P521_operands(5-8)]]
  show "Agree hash32 P521_client (release_build 170) (replicate 32 0) (Integer_Encode 3 66)
     (Integer_Encode 5 66 @ Integer_Encode 5 66) (Integer_Encode 7 66) (Integer_Encode 4 66) v
   = (Returned True, replicate 30 0 @ [178, 74])"
    by (simp only: client P521_operands P521_sigma P521_agreed_values)
  show "Agree hash32 P521_client (release_build 0) (replicate 32 0) (Integer_Encode 3 66)
     (Integer_Encode 5 66 @ Integer_Encode 5 66) (Integer_Encode 7 66) (Integer_Encode 4 66) v
   = (Returned True, replicate 30 0 @ [175, 74])"
    by (simp only: client P521_operands P521_sigma P521_agreed_values)
  show "Agree hash32 P521_server (release_build 0) (replicate 32 0) (Integer_Encode 7 66)
     (Integer_Encode 4 66 @ Integer_Encode 4 66) (Integer_Encode 3 66) (Integer_Encode 5 66) v
   = (Returned True, replicate 30 0 @ [175, 74])"
    by (simp only: server P521_operands P521_sigma P521_agreed_values)
qed

section \<open>The claims\<close>

text \<open>
  C1: mutual agreement, that the two roles return the same agreed value for any group
  parameters and honest keys, evaluated where the code breaks its own assertion. A
  subgroup order of 521 bits (the order of the curve P-521) gives a challenge of 33
  bytes, and \<open>Agree\<close> asks \<open>Hash\<close> for 33 bytes of a digest of 32, against the assertion
  of line 66. The group is the additive one of that order, which has valid parameters
  (lemma \<open>additive_group_valid\<close>). The Client holds the exponents 3 and 5, the Server 7
  and 4, and each is given the public keys of the other. Compiled with assertions, both
  calls stop at the assertion and return nothing. Compiled without them, both return
  true, each with challenges whose last byte is a stale byte of its own memory: on a
  Client with stale bytes 170 and a Server with stale bytes 0 the agreed values differ.
\<close>

theorem mutual_agreement_fails_P521:
  "valid_hash hash32
   \<and> private_key_bytes P521_client (Integer_Encode 3 66)
   \<and> private_key_bytes P521_client (Integer_Encode 5 66)
   \<and> private_key_bytes P521_server (Integer_Encode 7 66)
   \<and> private_key_bytes P521_server (Integer_Encode 4 66)
   \<and> challenge_len (GetSubgroupOrder (additive_group order_P521)) = 33
   \<and> DIGESTSIZE hash32 = 32
   \<and> Agree hash32 P521_client (debug_build 170) (replicate 32 0) (Integer_Encode 3 66)
        (Integer_Encode 5 66 @ public_key_of P521_client (Integer_Encode 5 66))
        (public_key_of P521_server (Integer_Encode 7 66))
        (public_key_of P521_server (Integer_Encode 4 66)) True
      = (AssertionFailed, replicate 32 0)
   \<and> Agree hash32 P521_server (debug_build 0) (replicate 32 0) (Integer_Encode 7 66)
        (Integer_Encode 4 66 @ public_key_of P521_server (Integer_Encode 4 66))
        (public_key_of P521_client (Integer_Encode 3 66))
        (public_key_of P521_client (Integer_Encode 5 66)) True
      = (AssertionFailed, replicate 32 0)
   \<and> Agree hash32 P521_client (release_build 170) (replicate 32 0) (Integer_Encode 3 66)
        (Integer_Encode 5 66 @ public_key_of P521_client (Integer_Encode 5 66))
        (public_key_of P521_server (Integer_Encode 7 66))
        (public_key_of P521_server (Integer_Encode 4 66)) True
      = (Returned True, replicate 30 0 @ [178, 74])
   \<and> Agree hash32 P521_server (release_build 0) (replicate 32 0) (Integer_Encode 7 66)
        (Integer_Encode 4 66 @ public_key_of P521_server (Integer_Encode 4 66))
        (public_key_of P521_client (Integer_Encode 3 66))
        (public_key_of P521_client (Integer_Encode 5 66)) True
      = (Returned True, replicate 30 0 @ [175, 74])"
proof -
  have pos: "0 < order_P521" by (simp add: order_P521_def)
  have G: "valid_group_parameters (additive_group order_P521)"
    by (rule additive_group_valid [OF pos])
  have debug:
    "Agree hash32 P521_client (debug_build 170) (replicate 32 0) (Integer_Encode 3 66)
        (Integer_Encode 5 66 @ public_key_of P521_client (Integer_Encode 5 66))
        (public_key_of P521_server (Integer_Encode 7 66))
        (public_key_of P521_server (Integer_Encode 4 66)) True
      = (AssertionFailed, replicate 32 0)"
    "Agree hash32 P521_server (debug_build 0) (replicate 32 0) (Integer_Encode 7 66)
        (Integer_Encode 4 66 @ public_key_of P521_server (Integer_Encode 4 66))
        (public_key_of P521_client (Integer_Encode 3 66))
        (public_key_of P521_client (Integer_Encode 5 66)) True
      = (AssertionFailed, replicate 32 0)"
    by (rule Agree_assertion_fails [OF G P521_hash_facts(3) P521_hash_facts(5) P521_facts(1)
          P521_facts(2) P521_keys(3) P521_keys(4)],
        rule Agree_assertion_fails [OF G P521_hash_facts(3) P521_hash_facts(5) P521_facts(2)
          P521_facts(1) P521_keys(1) P521_keys(2)])
  have release:
    "Agree hash32 P521_client (release_build 170) (replicate 32 0) (Integer_Encode 3 66)
        (Integer_Encode 5 66 @ public_key_of P521_client (Integer_Encode 5 66))
        (public_key_of P521_server (Integer_Encode 7 66))
        (public_key_of P521_server (Integer_Encode 4 66)) True
      = (Returned True, replicate 30 0 @ [178, 74])"
    "Agree hash32 P521_server (release_build 0) (replicate 32 0) (Integer_Encode 7 66)
        (Integer_Encode 4 66 @ public_key_of P521_server (Integer_Encode 4 66))
        (public_key_of P521_client (Integer_Encode 3 66))
        (public_key_of P521_client (Integer_Encode 5 66)) True
      = (Returned True, replicate 30 0 @ [175, 74])"
    by (simp_all only: P521_public_keys P521_release_runs)
  show ?thesis
    by (intro conjI hash32_valid P521_keys P521_facts(5) P521_hash_facts(1) debug release)
qed

text \<open>
  C2: the combined exponent and the shared element. For a positive subgroup order and
  keys of the counterpart that decode, to \<open>S\<close> (static) and \<open>E\<close> (ephemeral), and pass
  validation, lines 225 to 253 compute the element of the specification from the
  challenges \<open>d\<close> and \<open>e\<close>: for the Client \<open>(E S^e)^((x + d a) mod q)\<close> with \<open>S = B\<close>
  and \<open>E = Y\<close>, for the Server \<open>(E S^d)^((y + e b) mod q)\<close> with \<open>S = A\<close> and
  \<open>E = X\<close>, the exponents read from the static private key and from the head of the
  ephemeral private key. \<open>Agree\<close> then returns true and leaves the hash of that element
  and of the four operands, for the challenges that lines 212 to 223 computed; it stops
  only where these lines stop at the assertion. Where the challenge length is within
  the digest size the challenges are those of the specification.
\<close>

theorem combined_exponent_and_shared_element:
  fixes D :: "'e FHMQV_Domain"
  assumes "valid_hash H" and "encoder_fills (GetAbstractGroupParameters D)"
    and "0 < GetSubgroupOrder (GetAbstractGroupParameters D)"
    and "length av = AgreedValueLength H D"
    and "DecodeElement (GetAbstractGroupParameters D) so False = Some S"
    and "ValidateElement (GetAbstractGroupParameters D) (if v then 3 else 1) S"
    and "DecodeElement (GetAbstractGroupParameters D) eo False = Some E"
    and "ValidateElement (GetAbstractGroupParameters D) 3 E"
  shows
    "Agree_sigma D (Agree_operands D env sk ek so eo) d e sk ek
       = Normal (spec_sigma D sk ek d e S E)
     \<and> Agree H D env av sk ek so eo v =
         (case Agree_challenges H D env (Agree_operands D env sk ek so eo) of
            Normal (d', e') \<Rightarrow>
              (Returned True,
               spec_agreed_value H (GetAbstractGroupParameters D) (spec_sigma D sk ek d' e' S E)
                 (spec_X D ek eo) (spec_Y D ek eo) (spec_A D sk so) (spec_B D sk so))
          | _ \<Rightarrow> (AssertionFailed, av))
     \<and> (challenge_len (GetSubgroupOrder (GetAbstractGroupParameters D)) \<le> DIGESTSIZE H
        \<longrightarrow> Agree H D env av sk ek so eo v =
             (Returned True,
              spec_agreed_value H (GetAbstractGroupParameters D)
                (spec_sigma D sk ek
                   (spec_challenge H (challenge_len (GetSubgroupOrder (GetAbstractGroupParameters D)))
                      (spec_X D ek eo) (spec_Y D ek eo) (spec_A D sk so) (spec_B D sk so))
                   (spec_challenge H (challenge_len (GetSubgroupOrder (GetAbstractGroupParameters D)))
                      (spec_Y D ek eo) (spec_X D ek eo) (spec_A D sk so) (spec_B D sk so))
                   S E)
                (spec_X D ek eo) (spec_Y D ek eo) (spec_A D sk so) (spec_B D sk so)))"
proof (intro conjI impI)
  show "Agree_sigma D (Agree_operands D env sk ek so eo) d e sk ek
      = Normal (spec_sigma D sk ek d e S E)"
    by (rule Agree_sigma_eq [OF assms(3,5,7)])
next
  let ?L = "Agree_operands D env sk ek so eo"
  have val: "Agree_validate D so eo v = Normal ()"
    using assms(5-8) by (simp add: Agree_validate_Normal)
  show "Agree H D env av sk ek so eo v =
      (case Agree_challenges H D env ?L of
         Normal (d', e') \<Rightarrow>
           (Returned True,
            spec_agreed_value H (GetAbstractGroupParameters D) (spec_sigma D sk ek d' e' S E)
              (spec_X D ek eo) (spec_Y D ek eo) (spec_A D sk so) (spec_B D sk so))
       | _ \<Rightarrow> (AssertionFailed, av))"
  proof (cases "Agree_challenges H D env ?L")
    case (Normal p)
    obtain d' e' where p: "p = (d', e')" by (cases p)
    show ?thesis
      using Agree_run [OF assms Normal [unfolded p]] by (simp add: Normal p)
  next
    case (Return r)
    then show ?thesis by (simp add: Agree_challenges_no_Return)
  next
    case (Throw ex)
    then show ?thesis by (simp add: Agree_challenges_no_Throw)
  next
    case Abort
    then show ?thesis by (simp add: Agree_def Agree_try_def val)
  qed
next
  assume "challenge_len (GetSubgroupOrder (GetAbstractGroupParameters D)) \<le> DIGESTSIZE H"
  then show "Agree H D env av sk ek so eo v =
      (Returned True,
       spec_agreed_value H (GetAbstractGroupParameters D)
         (spec_sigma D sk ek
            (spec_challenge H (challenge_len (GetSubgroupOrder (GetAbstractGroupParameters D)))
               (spec_X D ek eo) (spec_Y D ek eo) (spec_A D sk so) (spec_B D sk so))
            (spec_challenge H (challenge_len (GetSubgroupOrder (GetAbstractGroupParameters D)))
               (spec_Y D ek eo) (spec_X D ek eo) (spec_A D sk so) (spec_B D sk so))
            S E)
         (spec_X D ek eo) (spec_Y D ek eo) (spec_A D sk so) (spec_B D sk so))"
    using Agree_success [OF assms(1) _ assms(2-8)] by simp
qed

text \<open>
  On the small instance the challenges are 223 and 93. The Client computes
  \<open>(16 * 13^93)^((5 + 223 * 3) mod 11) = 13\<close> modulo 23 and the Server
  \<open>(9 * 8^223)^((4 + 93 * 7) mod 11) = 13\<close>, and both calls of \<open>Agree\<close> return true and
  leave the bytes 106 and 5.
\<close>

theorem combined_exponent_and_shared_element_witness:
  "Agree toy_hash toy_client toy_env [0, 0] [3] [5, 9] [13] [16] True = (Returned True, [106, 5])
   \<and> Agree toy_hash toy_server toy_env [1, 1] [7] [4, 16] [8] [9] False = (Returned True, [106, 5])
   \<and> Agree_sigma toy_client (Agree_operands toy_client toy_env [3] [5, 9] [13] [16]) 223 93 [3] [5, 9]
       = Normal 13
   \<and> Agree_sigma toy_server (Agree_operands toy_server toy_env [7] [4, 16] [8] [9]) 223 93 [7] [4, 16]
       = Normal 13"
proof -
  have G: "GetAbstractGroupParameters toy_client = toy_group"
    "GetAbstractGroupParameters toy_server = toy_group"
    by (simp_all add: toy_client_def toy_server_def new_FHMQV_Domain_simps)
  have fills: "encoder_fills toy_group" and q: "0 < GetSubgroupOrder toy_group"
    by (simp_all add: encoder_fills_def toy_group_def)
  have len: "challenge_len (GetSubgroupOrder toy_group) \<le> DIGESTSIZE toy_hash"
    by (simp add: toy_lengths toy_hash_def)
  have av: "length [0, 0 :: byte] = AgreedValueLength toy_hash toy_client"
    "length [1, 1 :: byte] = AgreedValueLength toy_hash toy_server"
    by (simp_all add: toy_lengths)
  have dec: "DecodeElement toy_group [13] False = Some 13"
    "DecodeElement toy_group [16] False = Some 16"
    "DecodeElement toy_group [8] False = Some 8" "DecodeElement toy_group [9] False = Some 9"
    by (simp_all add: toy_group_def)
  have ok: "ValidateElement toy_group l 13" "ValidateElement toy_group l 16"
    "ValidateElement toy_group l 8" "ValidateElement toy_group l 9" for l
    by (simp_all add: toy_group_def)
  have ops: "spec_X toy_client [5, 9] [16] = [9]" "spec_Y toy_client [5, 9] [16] = [16]"
    "spec_A toy_client [3] [13] = [8]" "spec_B toy_client [3] [13] = [13]"
    "spec_X toy_server [4, 16] [9] = [9]" "spec_Y toy_server [4, 16] [9] = [16]"
    "spec_A toy_server [7] [8] = [8]" "spec_B toy_server [7] [8] = [13]"
    by (simp_all add: spec_X_def spec_Y_def spec_A_def spec_B_def public_key_of_def toy_defs)
  have sigma: "spec_sigma toy_client [3] [5, 9] 223 93 13 16 = 13"
    "spec_sigma toy_server [7] [4, 16] 223 93 8 9 = 13"
    by (simp_all add: spec_sigma_def Let_def toy_defs)
  have K: "spec_agreed_value toy_hash toy_group 13 [9] [16] [8] [13] = [106, 5]"
    by (simp add: spec_agreed_value_def toy_hash_def toy_group_def)
  note client = combined_exponent_and_shared_element [where D = toy_client and H = toy_hash
      and env = toy_env and sk = "[3]" and ek = "[5, 9]" and v = True and d = 223 and e = 93,
      unfolded G, OF toy_hash_valid fills q av(1) dec(1) ok(1) dec(2) ok(2)]
  note server = combined_exponent_and_shared_element [where D = toy_server and H = toy_hash
      and env = toy_env and sk = "[7]" and ek = "[4, 16]" and v = False and d = 223 and e = 93,
      unfolded G, OF toy_hash_valid fills q av(2) dec(3) ok(3) dec(4) ok(4)]
  have "Agree toy_hash toy_client toy_env [0, 0] [3] [5, 9] [13] [16] True = (Returned True, [106, 5])"
    using client [THEN conjunct2, THEN conjunct2, rule_format, OF len]
    by (simp only: ops toy_challenges sigma K)
  moreover
  have "Agree toy_hash toy_server toy_env [1, 1] [7] [4, 16] [8] [9] False = (Returned True, [106, 5])"
    using server [THEN conjunct2, THEN conjunct2, rule_format, OF len]
    by (simp only: ops toy_challenges sigma K)
  moreover
  have "Agree_sigma toy_client (Agree_operands toy_client toy_env [3] [5, 9] [13] [16]) 223 93 [3] [5, 9]
      = Normal 13"
    using client [THEN conjunct1] by (simp only: sigma)
  moreover
  have "Agree_sigma toy_server (Agree_operands toy_server toy_env [7] [4, 16] [8] [9]) 223 93 [7] [4, 16]
      = Normal 13"
    using server [THEN conjunct1] by (simp only: sigma)
  ultimately show ?thesis by (intro conjI)
qed



text \<open>
  C4, as the specification states it: for every subgroup order \<open>q\<close> the challenge
  length of \<open>Agree\<close> is \<open>ceil(ceil((bitlength(q)+1)/2)/8)\<close> bytes. This fails for the
  order of the curve P-256, which has 256 bits: line 214 gives 16 bytes, the formula 17.
\<close>

theorem challenge_len_not_spec_P256:
  "challenge_len 115792089210356248762697446949407573529996955224135760342422259061068512044369 = 16
   \<and> spec_challenge_len 115792089210356248762697446949407573529996955224135760342422259061068512044369 = 17"
  by (simp add: challenge_len_def spec_challenge_len_def BitCount_def bit_length_P256)

text \<open>
  C4, amended: for every subgroup order \<open>q\<close> the challenge length of \<open>Agree\<close> is
  \<open>ceil(floor((bitlength(q)+1)/2)/8)\<close> bytes: the inner division of line 214 is the
  integer division, which rounds down.
\<close>

theorem challenge_len_formula:
  "challenge_len q = nat \<lceil>real_of_int \<lfloor>(real (BitCount q) + 1) / 2\<rfloor> / 8\<rceil>"
  unfolding challenge_len_def floor_half ceiling_eighth ..

text \<open>
  C5: validation of the counterpart's keys. If the static public key decodes to an
  element that fails validation at level 3 when \<open>validateStaticOtherPublicKey\<close> is true,
  and at level 1 when it is false, \<open>Agree\<close> returns false; if the ephemeral public key
  decodes to an element that fails validation at level 3, \<open>Agree\<close> returns false,
  whatever the flag; and \<open>Agree\<close> returns true only if both keys decode and pass at
  these levels.
\<close>

theorem validation_levels:
  fixes D :: "'e FHMQV_Domain"
  shows
    "(DecodeElement (GetAbstractGroupParameters D) so False = Some V1
        \<and> \<not> ValidateElement (GetAbstractGroupParameters D) (if v then 3 else 1) V1
      \<longrightarrow> Agree H D env av sk ek so eo v = (Returned False, av))
     \<and> (DecodeElement (GetAbstractGroupParameters D) eo False = Some V2
        \<and> \<not> ValidateElement (GetAbstractGroupParameters D) 3 V2
      \<longrightarrow> Agree H D env av sk ek so eo v = (Returned False, av))
     \<and> (fst (Agree H D env av sk ek so eo v) = Returned True
      \<longrightarrow> (\<exists>W1 W2.
            DecodeElement (GetAbstractGroupParameters D) so False = Some W1
            \<and> ValidateElement (GetAbstractGroupParameters D) (if v then 3 else 1) W1
            \<and> DecodeElement (GetAbstractGroupParameters D) eo False = Some W2
            \<and> ValidateElement (GetAbstractGroupParameters D) 3 W2))"
proof (intro conjI impI)
  assume "DecodeElement (GetAbstractGroupParameters D) so False = Some V1
      \<and> \<not> ValidateElement (GetAbstractGroupParameters D) (if v then 3 else 1) V1"
  then have "Agree_validate D so eo v \<noteq> Normal ()"
    by (auto simp add: Agree_validate_Normal)
  then show "Agree H D env av sk ek so eo v = (Returned False, av)"
    by (rule Agree_outcomes(3))
next
  assume "DecodeElement (GetAbstractGroupParameters D) eo False = Some V2
      \<and> \<not> ValidateElement (GetAbstractGroupParameters D) 3 V2"
  then have "Agree_validate D so eo v \<noteq> Normal ()"
    by (auto simp add: Agree_validate_Normal)
  then show "Agree H D env av sk ek so eo v = (Returned False, av)"
    by (rule Agree_outcomes(3))
next
  assume ok: "fst (Agree H D env av sk ek so eo v) = Returned True"
  have "Agree_validate D so eo v = Normal ()"
  proof (rule ccontr)
    assume "Agree_validate D so eo v \<noteq> Normal ()"
    then have "Agree H D env av sk ek so eo v = (Returned False, av)"
      by (rule Agree_outcomes(3))
    with ok show False by simp
  qed
  then show "\<exists>W1 W2.
      DecodeElement (GetAbstractGroupParameters D) so False = Some W1
      \<and> ValidateElement (GetAbstractGroupParameters D) (if v then 3 else 1) W1
      \<and> DecodeElement (GetAbstractGroupParameters D) eo False = Some W2
      \<and> ValidateElement (GetAbstractGroupParameters D) 3 W2"
    by (simp add: Agree_validate_Normal)
qed

text \<open>
  On the small instance 5 is a residue outside the subgroup of order 11: it passes
  level 1 and fails level 3. As a static key it is rejected when validation is asked for
  and accepted when it is not; as an ephemeral key it is rejected.
\<close>

theorem validation_levels_witness:
  "Agree toy_hash toy_client toy_env [0, 0] [3] [5, 9] [5] [16] True = (Returned False, [0, 0])
   \<and> Agree toy_hash toy_client toy_env [0, 0] [3] [5, 9] [13] [5] False = (Returned False, [0, 0])
   \<and> DecodeElement toy_group [5] False = Some 5
   \<and> ValidateElement toy_group 1 5 \<and> \<not> ValidateElement toy_group 3 5
   \<and> Agree toy_hash toy_client toy_env [0, 0] [3] [5, 9] [5] [16] False = (Returned True, [153, 5])"
proof -
  have G: "GetAbstractGroupParameters toy_client = toy_group"
    by (simp add: toy_client_def new_FHMQV_Domain_simps)
  have dec: "DecodeElement toy_group [5] False = Some 5"
    and lvl: "ValidateElement toy_group 1 5" "\<not> ValidateElement toy_group 3 5"
    by (simp_all add: toy_group_def)
  have static: "Agree toy_hash toy_client toy_env [0, 0] [3] [5, 9] [5] [16] True = (Returned False, [0, 0])"
    using validation_levels [of toy_client "[5]" 5 True toy_hash toy_env "[0, 0]" "[3]" "[5, 9]"
        "[16]"]
      dec lvl by (simp add: G)
  have ephemeral:
    "Agree toy_hash toy_client toy_env [0, 0] [3] [5, 9] [13] [5] False = (Returned False, [0, 0])"
    using validation_levels [of toy_client "[13]" _ False toy_hash toy_env "[0, 0]" "[3]" "[5, 9]"
        "[5]" 5]
      dec lvl by (simp add: G)
  show ?thesis
    using static ephemeral dec lvl toy_client_accepts_unvalidated_static by simp
qed

text \<open>
  C6: \<open>Agree\<close> is atomic. \<open>DL_BadElement\<close> never reaches the caller, and no exception
  does when the subgroup order is not zero; a key that does not decode, or that fails
  its validation, makes \<open>Agree\<close> return false; and on every run that does not return
  true the buffer \<open>agreedValue\<close> is as it was before the call.
\<close>

theorem Agree_atomic:
  fixes D :: "'e FHMQV_Domain"
  shows
    "fst (Agree H D env av sk ek so eo v) \<noteq> Raised DL_BadElement
     \<and> (GetSubgroupOrder (GetAbstractGroupParameters D) \<noteq> 0
        \<longrightarrow> (\<forall>ex. fst (Agree H D env av sk ek so eo v) \<noteq> Raised ex))
     \<and> (DecodeElement (GetAbstractGroupParameters D) so False = None
        \<or> DecodeElement (GetAbstractGroupParameters D) eo False = None
        \<longrightarrow> fst (Agree H D env av sk ek so eo v) = Returned False)
     \<and> (Agree_validate D so eo v \<noteq> Normal ()
        \<longrightarrow> fst (Agree H D env av sk ek so eo v) = Returned False)
     \<and> (fst (Agree H D env av sk ek so eo v) \<noteq> Returned True
        \<longrightarrow> snd (Agree H D env av sk ek so eo v) = av)"
proof (intro conjI impI allI)
  show "fst (Agree H D env av sk ek so eo v) \<noteq> Raised DL_BadElement"
    by (rule Agree_outcomes(1))
next
  fix ex assume "GetSubgroupOrder (GetAbstractGroupParameters D) \<noteq> 0"
  then show "fst (Agree H D env av sk ek so eo v) \<noteq> Raised ex"
    by (rule Agree_outcomes(2))
next
  assume "DecodeElement (GetAbstractGroupParameters D) so False = None
      \<or> DecodeElement (GetAbstractGroupParameters D) eo False = None"
  then have "Agree_validate D so eo v \<noteq> Normal ()"
    by (auto simp add: Agree_validate_Normal)
  then show "fst (Agree H D env av sk ek so eo v) = Returned False"
    by (simp add: Agree_outcomes(3))
next
  assume "Agree_validate D so eo v \<noteq> Normal ()"
  then show "fst (Agree H D env av sk ek so eo v) = Returned False"
    by (simp add: Agree_outcomes(3))
next
  assume "fst (Agree H D env av sk ek so eo v) \<noteq> Returned True"
  then show "snd (Agree H D env av sk ek so eo v) = av"
    by (rule Agree_outcomes(4))
qed

text \<open>
  On the small instance an ephemeral public key without bytes does not decode:
  \<open>Agree\<close> returns false and leaves the buffer alone.
\<close>

theorem Agree_atomic_witness:
  "DecodeElement (GetAbstractGroupParameters toy_client) [] False = None
   \<and> fst (Agree toy_hash toy_client toy_env [0, 0] [3] [5, 9] [13] [] False) = Returned False
   \<and> snd (Agree toy_hash toy_client toy_env [0, 0] [3] [5, 9] [13] [] False) = [0, 0]"
proof -
  have dec: "DecodeElement (GetAbstractGroupParameters toy_client) [] False = None"
    by (simp add: toy_defs)
  from Agree_atomic [of toy_hash toy_client toy_env "[0, 0]" "[3]" "[5, 9]" "[13]" "[]" False] dec
  show ?thesis by simp
qed

text \<open>
  C7: the length invariants. The ephemeral private key is as long as a static private
  key and a static public key together, the ephemeral public key as long as a static
  public key, and the agreed value as long as the digest of the hash.
\<close>

theorem length_invariants:
  "EphemeralPrivateKeyLength D = StaticPrivateKeyLength D + StaticPublicKeyLength D
   \<and> EphemeralPublicKeyLength D = StaticPublicKeyLength D
   \<and> AgreedValueLength H D = DIGESTSIZE H"
  by (simp add: EphemeralPrivateKeyLength_def EphemeralPublicKeyLength_def AgreedValueLength_def)

text \<open>
  C8: the ephemeral public key is the tail of the ephemeral private key. For a private
  key \<open>sk\<close> that \<open>GenerateEphemeralPrivateKey\<close> wrote into a buffer of
  \<open>EphemeralPrivateKeyLength\<close> bytes, \<open>GenerateEphemeralPublicKey\<close> writes the last
  \<open>StaticPublicKeyLength\<close> bytes of \<open>sk\<close>: they are the encoding of the base raised to
  the exponent drawn, and the result is the same whatever the exponentiation functions
  of the group are.
\<close>

theorem ephemeral_public_key_is_tail:
  fixes D :: "'e FHMQV_Domain"
  assumes "encoder_fills (GetAbstractGroupParameters D)"
    and "length privateKey = EphemeralPrivateKeyLength D"
    and "length publicKey = EphemeralPublicKeyLength D"
    and "GenerateEphemeralPrivateKey D rng privateKey = (rng', sk)"
  shows "length sk = EphemeralPrivateKeyLength D
     \<and> GenerateEphemeralPublicKey D rng2 sk publicKey
         = (rng2, drop (length sk - StaticPublicKeyLength D) sk)
     \<and> drop (length sk - StaticPublicKeyLength D) sk
         = EncodeElement (GetAbstractGroupParameters D) True
             (ExponentiateBase (GetAbstractGroupParameters D)
                (fst (Integer_random rng 1 (GetMaxExponent (GetAbstractGroupParameters D)))))
     \<and> GenerateEphemeralPublicKey
           (D\<lparr>m_groupParameters :=
                (m_groupParameters D)\<lparr>ExponentiateBase := f, ExponentiateElement := h\<rparr>\<rparr>)
           rng2 sk publicKey
         = GenerateEphemeralPublicKey D rng2 sk publicKey"
proof -
  let ?G = "GetAbstractGroupParameters D"
  let ?x = "fst (Integer_random rng 1 (GetMaxExponent ?G))"
  have fill: "length (EncodeElement ?G True g) = StaticPublicKeyLength D" for g
    using assms(1) by (simp add: encoder_fills_def StaticPublicKeyLength_def)
  have sk: "sk = Integer_Encode ?x (StaticPrivateKeyLength D)
      @ EncodeElement ?G True (ExponentiateBase ?G ?x)"
    using GenerateEphemeralPrivateKey_eq [OF assms(1,2), of rng] assms(4) by simp
  have len: "length sk = EphemeralPrivateKeyLength D"
    by (simp add: sk length_Integer_Encode fill EphemeralPrivateKeyLength_def)
  have tail: "drop (length sk - StaticPublicKeyLength D) sk
      = EncodeElement ?G True (ExponentiateBase ?G ?x)"
    by (simp add: sk length_Integer_Encode fill)
  have pub: "GenerateEphemeralPublicKey D rng2 sk publicKey
      = (rng2, drop (length sk - StaticPublicKeyLength D) sk)"
  proof -
    have "take (EphemeralPublicKeyLength D) (drop (StaticPrivateKeyLength D) sk)
        = EncodeElement ?G True (ExponentiateBase ?G ?x)"
      by (simp add: sk length_Integer_Encode fill EphemeralPublicKeyLength_def)
    then show ?thesis
      using assms(3)
      by (simp add: GenerateEphemeralPublicKey_def tail write_bytes_whole fill
          EphemeralPublicKeyLength_def)
  qed
  have same: "GenerateEphemeralPublicKey
           (D\<lparr>m_groupParameters :=
                (m_groupParameters D)\<lparr>ExponentiateBase := f, ExponentiateElement := h\<rparr>\<rparr>)
           rng2 sk publicKey
         = GenerateEphemeralPublicKey D rng2 sk publicKey"
    by (simp add: GenerateEphemeralPublicKey_def EphemeralPublicKeyLength_def
        StaticPublicKeyLength_def StaticPrivateKeyLength_def GetAbstractGroupParameters_def)
  show ?thesis using len pub tail same by simp
qed

text \<open>
  On the small instance the generator draws 5: the private key is 5 followed by the
  encoding 9 of \<open>2^5 mod 23\<close>, and the public key is 9.
\<close>

theorem ephemeral_public_key_is_tail_witness:
  "GenerateEphemeralPrivateKey toy_client toy_rng [0, 0] = (toy_rng\<lparr>rng_state := 5\<rparr>, [5, 9])
   \<and> GenerateEphemeralPublicKey toy_client toy_rng [5, 9] [0] = (toy_rng, [9])"
proof -
  have fills: "encoder_fills (GetAbstractGroupParameters toy_client)"
    by (simp add: encoder_fills_def toy_defs)
  have len: "length [0, 0 :: byte] = EphemeralPrivateKeyLength toy_client"
    "length [0 :: byte] = EphemeralPublicKeyLength toy_client"
    by (simp_all add: EphemeralPrivateKeyLength_def toy_lengths)
  have gen: "GenerateEphemeralPrivateKey toy_client toy_rng [0, 0]
      = (toy_rng\<lparr>rng_state := 5\<rparr>, [5, 9])"
    by (simp add: GenerateEphemeralPrivateKey_def Integer_random_def toy_rng_def Let_def
        Integer_Encode_def toy_defs)
  have "GenerateEphemeralPublicKey toy_client toy_rng [5, 9] [0]
      = (toy_rng, drop (length [5, 9 :: byte] - StaticPublicKeyLength toy_client) [5, 9])"
    using ephemeral_public_key_is_tail [OF fills len gen, of toy_rng] by (rule_tac conjunct1 [OF conjunct2])
  then have "GenerateEphemeralPublicKey toy_client toy_rng [5, 9] [0] = (toy_rng, [9])"
    by (simp add: toy_lengths)
  with gen show ?thesis by simp
qed

text \<open>
  C9: determinism, that two calls of \<open>Agree\<close> with the same role, group parameters,
  keys and flag have the same result, evaluated where the code breaks its own assertion.
  With the subgroup order of 521 bits and the digest of 32 bytes, compiled without
  assertions, the last byte of each challenge is a byte of a fresh block that \<open>Hash\<close>
  never wrote. Two calls on the Client with the same arguments, one on a memory with
  stale bytes 170 and one with stale bytes 0, both return true and leave different
  agreed values.
\<close>

theorem Agree_not_deterministic_P521:
  "challenge_len (GetSubgroupOrder (GetAbstractGroupParameters P521_client)) = 33
   \<and> DIGESTSIZE hash32 = 32
   \<and> Agree hash32 P521_client (release_build 170) (replicate 32 0) (Integer_Encode 3 66)
        (Integer_Encode 5 66 @ public_key_of P521_client (Integer_Encode 5 66))
        (public_key_of P521_server (Integer_Encode 7 66))
        (public_key_of P521_server (Integer_Encode 4 66)) True
      = (Returned True, replicate 30 0 @ [178, 74])
   \<and> Agree hash32 P521_client (release_build 0) (replicate 32 0) (Integer_Encode 3 66)
        (Integer_Encode 5 66 @ public_key_of P521_client (Integer_Encode 5 66))
        (public_key_of P521_server (Integer_Encode 7 66))
        (public_key_of P521_server (Integer_Encode 4 66)) True
      = (Returned True, replicate 30 0 @ [175, 74])"
  by (simp only: P521_facts P521_hash_facts P521_public_keys P521_release_runs simp_thms)

text \<open>
  C10: the public key functions do not read the random number generator. With two
  generators, of any kind and in any state, \<open>GenerateStaticPublicKey\<close> writes the same
  bytes, and so does \<open>GenerateEphemeralPublicKey\<close>; both leave the generator as it was;
  and the static public key is a function of the private key and the group parameters.
\<close>

theorem public_keys_ignore_rng:
  "snd (GenerateStaticPublicKey D rng1 privateKey publicKey)
     = snd (GenerateStaticPublicKey D rng2 privateKey publicKey)
   \<and> snd (GenerateEphemeralPublicKey D rng1 privateKey publicKey)
     = snd (GenerateEphemeralPublicKey D rng2 privateKey publicKey)
   \<and> fst (GenerateStaticPublicKey D rng1 privateKey publicKey) = rng1
   \<and> fst (GenerateEphemeralPublicKey D rng1 privateKey publicKey) = rng1
   \<and> snd (GenerateStaticPublicKey D rng1 privateKey publicKey)
     = write_bytes publicKey 0 (public_key_of D privateKey)"
  by (simp add: GenerateStaticPublicKey_def GenerateEphemeralPublicKey_def Let_def
      public_key_of_def)

end
